theory Spec2Isabelle
  imports Complex_Main
begin

section \<open>JavaScript values\<close>

text \<open>
  The normalisation engine of \<^verbatim>\<open>src/code-samples/json_cleaner.js\<close> works on untyped
  JavaScript values. A value is modelled by the datatype \<open>jsval\<close>: the JSON values (null,
  booleans, numbers, strings, arrays, objects) and \<open>undefined\<close>, which property reads
  produce and the output object holds.

  \<^item> A string is a list of code units; each \<open>char\<close> stands for one code unit below
    \<open>0x100\<close>.
  \<^item> An object is the list of its own properties in insertion order, its keys distinct.
    A read in the model finds an own property or \<open>undefined\<close>. That is the read of the
    source for every key that no prototype provides: the literals of the source (\<open>body\<close>,
    \<open>REGISTRO\<close>, \<open>VALOR\<close>, ...) and the field codes (\<open>fieldCode\<close> below) to which the theorems
    on \<open>processDetailBlock\<close> confine the \<open>dataKey\<close> and the source keys of a rename map. A
    name that a prototype provides (\<open>toString\<close>, \<open>constructor\<close>, \<open>__proto__\<close>), and the
    \<open>length\<close> and the indices of an array or a string, are outside the model as keys to
    read; \<open>__proto__\<close> and an index are outside it as keys to write.
  \<^item> A number is \<open>NaN\<close>, an infinity or a finite value, kept as the exact rational it
    denotes; negative zero is identified with zero. The rounding of binary64, and its
    overflow to an infinity, is not modelled: the values of the claims (\<open>4\<close>, \<open>150.5\<close>,
    \<open>1234567.89\<close>) are the decimals the source's literals denote.
  \<^item> The conversion of a number to a string depends on the binary64 digits; it is the
    parameter \<open>nf\<close> of every function that converts, and each theorem holds for every
    \<open>nf\<close>.
  \<^item> Nesting has no bound in the model: the conversion of an array nested so deeply that
    an engine exhausts its stack is outside it.
\<close>

datatype jsnum = NaN | PosInf | NegInf | Fin rat

datatype jsval =
    JUndefined
  | JNull
  | JBool bool
  | JNum jsnum
  | JStr string
  | JArr "jsval list"
  | JObj "(string \<times> jsval) list"

text \<open>The only exception the engine can raise is a \<open>TypeError\<close>.\<close>

datatype js_error = TypeError

definition ebind :: "js_error + 'a \<Rightarrow> ('a \<Rightarrow> js_error + 'b) \<Rightarrow> js_error + 'b" where
  "ebind m f = (case m of Inl e \<Rightarrow> Inl e | Inr x \<Rightarrow> f x)"

text \<open>\<open>ToBoolean\<close>: the falsy values are undefined, null, false, zero, NaN and the empty string.\<close>

fun numTruthy :: "jsnum \<Rightarrow> bool" where
  "numTruthy NaN = False"
| "numTruthy (Fin q) = (q \<noteq> 0)"
| "numTruthy PosInf = True"
| "numTruthy NegInf = True"

fun truthy :: "jsval \<Rightarrow> bool" where
  "truthy JUndefined = False"
| "truthy JNull = False"
| "truthy (JBool b) = b"
| "truthy (JNum n) = numTruthy n"
| "truthy (JStr s) = (s \<noteq> [])"
| "truthy (JArr xs) = True"
| "truthy (JObj ps) = True"

fun typeof_js :: "jsval \<Rightarrow> string" where
  "typeof_js JUndefined = ''undefined''"
| "typeof_js JNull = ''object''"
| "typeof_js (JBool b) = ''boolean''"
| "typeof_js (JNum n) = ''number''"
| "typeof_js (JStr s) = ''string''"
| "typeof_js (JArr xs) = ''object''"
| "typeof_js (JObj ps) = ''object''"

fun isArray :: "jsval \<Rightarrow> bool" where
  "isArray (JArr xs) = True"
| "isArray v = False"

text \<open>
  A property read \<open>v[k]\<close> or \<open>v.k\<close>, for a key \<open>k\<close> that no prototype provides and that is
  neither \<open>length\<close> nor an index: a \<open>TypeError\<close> on undefined and null, the own property of
  an object, \<open>undefined\<close> otherwise. The optional read \<open>v?.k\<close> is \<open>undefined\<close> on undefined
  and null.
\<close>

fun getProp :: "jsval \<Rightarrow> string \<Rightarrow> js_error + jsval" where
  "getProp JUndefined k = Inl TypeError"
| "getProp JNull k = Inl TypeError"
| "getProp (JObj ps) k = Inr (case map_of ps k of Some v \<Rightarrow> v | None \<Rightarrow> JUndefined)"
| "getProp v k = Inr JUndefined"

definition optGet :: "jsval \<Rightarrow> string \<Rightarrow> js_error + jsval" where
  "optGet v k = (if v = JUndefined \<or> v = JNull then Inr JUndefined else getProp v k)"

text \<open>
  The assignment \<open>o[k] = v\<close> on the property list of an object, for a key \<open>k\<close> that is
  neither \<open>__proto__\<close> nor an index: the value of an own property is replaced in place, a new
  property is added last.
\<close>

definition setProp :: "(string \<times> jsval) list \<Rightarrow> string \<Rightarrow> jsval \<Rightarrow> (string \<times> jsval) list" where
  "setProp ps k v =
     (if k \<in> set (map fst ps) then map (\<lambda>p. if fst p = k then (k, v) else p) ps
      else ps @ [(k, v)])"

text \<open>
  \<open>ToString\<close>. An object with an own property \<open>toString\<close> hides
  \<open>Object.prototype.toString\<close>; the property of a JSON document is not callable, the
  inherited \<open>valueOf\<close> returns the object itself, and the conversion ends in a
  \<open>TypeError\<close>. An array is joined with commas, undefined and null elements as the empty
  string.
\<close>

fun toString_js :: "(jsnum \<Rightarrow> string) \<Rightarrow> jsval \<Rightarrow> js_error + string"
and joinElems :: "(jsnum \<Rightarrow> string) \<Rightarrow> jsval list \<Rightarrow> js_error + string" where
  "toString_js nf JUndefined = Inr ''undefined''"
| "toString_js nf JNull = Inr ''null''"
| "toString_js nf (JBool b) = Inr (if b then ''true'' else ''false'')"
| "toString_js nf (JNum n) = Inr (nf n)"
| "toString_js nf (JStr s) = Inr s"
| "toString_js nf (JArr xs) = joinElems nf xs"
| "toString_js nf (JObj ps) =
     (if ''toString'' \<in> set (map fst ps) then Inl TypeError else Inr ''[object Object]'')"
| "joinElems nf [] = Inr []"
| "joinElems nf (x # xs) =
     (case (if x = JUndefined \<or> x = JNull then Inr [] else toString_js nf x) of
        Inl e \<Rightarrow> Inl e
      | Inr s \<Rightarrow>
          (case joinElems nf xs of
             Inl e \<Rightarrow> Inl e
           | Inr r \<Rightarrow> Inr (if xs = [] then s else s @ '','' @ r)))"

section \<open>Strings and numbers of the platform\<close>

text \<open>White space and line terminators among the code units below \<open>0x100\<close>.\<close>

definition isWs :: "char \<Rightarrow> bool" where
  "isWs c = (of_char c \<in> {9, 10, 11, 12, 13, 32, 160 :: nat})"

definition trim :: "string \<Rightarrow> string" where
  "trim s = rev (dropWhile isWs (rev (dropWhile isWs s)))"

text \<open>The value of a digit in radix \<open>r\<close>, and of a digit string.\<close>

definition digitVal :: "nat \<Rightarrow> char \<Rightarrow> nat option" where
  "digitVal r c =
     (let n = (of_char c :: nat);
          d = (if 48 \<le> n \<and> n \<le> 57 then Some (n - 48)
               else if 97 \<le> n \<and> n \<le> 122 then Some (n - 87)
               else if 65 \<le> n \<and> n \<le> 90 then Some (n - 55)
               else None)
      in case d of None \<Rightarrow> None | Some x \<Rightarrow> (if x < r then Some x else None))"

definition isDigit :: "nat \<Rightarrow> char \<Rightarrow> bool" where
  "isDigit r c = (digitVal r c \<noteq> None)"

fun digitsValue :: "nat \<Rightarrow> nat \<Rightarrow> string \<Rightarrow> nat" where
  "digitsValue r acc [] = acc"
| "digitsValue r acc (c # cs) =
     digitsValue r (acc * r + (case digitVal r c of Some d \<Rightarrow> d | None \<Rightarrow> 0)) cs"

text \<open>An optional sign: whether it is a minus, and the rest.\<close>

fun stripSign :: "string \<Rightarrow> bool \<times> string" where
  "stripSign [] = (False, [])"
| "stripSign (c # cs) =
     (if c = CHR ''-'' then (True, cs) else if c = CHR ''+'' then (False, cs)
      else (False, c # cs))"

text \<open>
  \<open>parseInt(string)\<close> with no radix: leading white space, a sign, the prefix \<open>0x\<close> for
  radix 16, then the longest run of digits; \<open>NaN\<close> when there is none.
\<close>

definition parseIntStr :: "string \<Rightarrow> jsnum" where
  "parseIntStr inputString =
     (let (neg, s) = stripSign (dropWhile isWs inputString);
          hex = (take 2 s = ''0x'' \<or> take 2 s = ''0X'');
          r = (if hex then 16 else 10);
          z = takeWhile (isDigit r) (if hex then drop 2 s else s)
      in if z = [] then NaN
         else Fin (of_int ((if neg then - 1 else 1) * int (digitsValue r 0 z))))"

definition parseInt_js :: "(jsnum \<Rightarrow> string) \<Rightarrow> jsval \<Rightarrow> js_error + jsnum" where
  "parseInt_js nf v = ebind (toString_js nf v) (\<lambda>s. Inr (parseIntStr s))"

text \<open>
  \<open>parseFloat(string)\<close>: leading white space, a sign, then \<open>Infinity\<close> or the longest
  prefix that is a decimal literal (digits, a fraction, an exponent with at least one
  digit); \<open>NaN\<close> when there is no digit.
\<close>

definition exponentPart :: "string \<Rightarrow> int" where
  "exponentPart s =
     (case s of
        [] \<Rightarrow> 0
      | c # cs \<Rightarrow>
          (if c = CHR ''e'' \<or> c = CHR ''E'' then
             (let (neg, t) = stripSign cs; ds = takeWhile (isDigit 10) t
              in if ds = [] then 0
                 else (if neg then - int (digitsValue 10 0 ds) else int (digitsValue 10 0 ds)))
           else 0))"

definition parseFloat_js :: "string \<Rightarrow> jsnum" where
  "parseFloat_js inputString =
     (let (neg, s) = stripSign (dropWhile isWs inputString)
      in if take 8 s = ''Infinity'' then (if neg then NegInf else PosInf)
         else
           (let ip = takeWhile (isDigit 10) s;
                r1 = dropWhile (isDigit 10) s;
                dot = (case r1 of [] \<Rightarrow> False | c # cs \<Rightarrow> c = CHR ''.'');
                fp = (if dot then takeWhile (isDigit 10) (tl r1) else []);
                r2 = (if dot then dropWhile (isDigit 10) (tl r1) else r1)
            in if ip = [] \<and> fp = [] then NaN
               else Fin ((if neg then - 1 else 1) * of_nat (digitsValue 10 0 (ip @ fp))
                          * 10 powi (exponentPart r2 - int (length fp)))))"

text \<open>\<open>s.replace(/\./g, "")\<close> and \<open>s.replace(",", ".")\<close>: every dot, the first comma.\<close>

definition removeDots :: "string \<Rightarrow> string" where
  "removeDots s = filter (\<lambda>c. c \<noteq> CHR ''.'') s"

fun replaceComma :: "string \<Rightarrow> string" where
  "replaceComma [] = []"
| "replaceComma (c # cs) = (if c = CHR '','' then CHR ''.'' # cs else c # replaceComma cs)"

text \<open>The sum of two numbers.\<close>

fun numAdd :: "jsnum \<Rightarrow> jsnum \<Rightarrow> jsnum" where
  "numAdd NaN b = NaN"
| "numAdd a NaN = NaN"
| "numAdd PosInf NegInf = NaN"
| "numAdd NegInf PosInf = NaN"
| "numAdd PosInf b = PosInf"
| "numAdd NegInf b = NegInf"
| "numAdd (Fin x) PosInf = PosInf"
| "numAdd (Fin x) NegInf = NegInf"
| "numAdd (Fin x) (Fin y) = Fin (x + y)"

section \<open>Helper functions of the source\<close>

text \<open>\<open>parseMonetaryValue\<close> (lines 19 to 23).\<close>

definition parseMonetaryValue :: "jsval \<Rightarrow> jsnum" where
  "parseMonetaryValue valueStr =
     (case valueStr of
        JStr s \<Rightarrow> parseFloat_js (replaceComma (removeDots s))
      | _ \<Rightarrow> Fin 0)"

text \<open>
  \<open>processDetailBlock\<close> (lines 37 to 80). The \<open>dataKey\<close> is a string or null
  (\<open>None\<close>); the rename map \<open>keyMap\<close> is the list of its (old key, new key) pairs in
  the order \<open>for ... in\<close> visits them.

  The condition of line 50, \<open>dataKey && detailBlock.REGISTRO === "S" && detailBlock[dataKey]\<close>,
  and the condition of line 54, \<open>typeof detailBlock === "object" && detailBlock.REGISTRO === "S"\<close>.
\<close>

definition wrapperTest :: "jsval \<Rightarrow> string option \<Rightarrow> js_error + bool" where
  "wrapperTest detailBlock dataKey =
     (case dataKey of
        None \<Rightarrow> Inr False
      | Some k \<Rightarrow>
          (if k = [] then Inr False
           else ebind (getProp detailBlock ''REGISTRO'') (\<lambda>registro.
             if registro \<noteq> JStr ''S'' then Inr False
             else ebind (getProp detailBlock k) (\<lambda>v. Inr (truthy v)))))"

definition singleRecordTest :: "jsval \<Rightarrow> js_error + bool" where
  "singleRecordTest detailBlock =
     (if typeof_js detailBlock \<noteq> ''object'' then Inr False
      else ebind (getProp detailBlock ''REGISTRO'') (\<lambda>registro. Inr (registro = JStr ''S'')))"

text \<open>The property key that a \<open>dataKey\<close> names; null names the key \<open>"null"\<close>.\<close>

fun keyOf :: "string option \<Rightarrow> string" where
  "keyOf None = ''null''"
| "keyOf (Some k) = k"

text \<open>
  Lines 43 to 60 choose \<open>rawData\<close>, or leave the function with the empty array
  (\<open>None\<close>).
\<close>

definition resolveRawData :: "jsval \<Rightarrow> string option \<Rightarrow> js_error + jsval option" where
  "resolveRawData detailBlock dataKey =
     (if isArray detailBlock then Inr (Some detailBlock)
      else
        ebind (wrapperTest detailBlock dataKey) (\<lambda>wrapper.
          if wrapper then
            ebind (getProp detailBlock (keyOf dataKey)) (\<lambda>v. Inr (Some v))
          else
            ebind (singleRecordTest detailBlock) (\<lambda>single.
              Inr (if single then Some detailBlock else None))))"

text \<open>The loop of lines 70 to 77 over the rename map, filling \<open>newItem\<close>.\<close>

fun fillItem ::
  "jsval \<Rightarrow> (string \<times> string) list \<Rightarrow> (string \<times> jsval) list \<Rightarrow> js_error + (string \<times> jsval) list"
where
  "fillItem item [] newItem = Inr newItem"
| "fillItem item ((oldKey, newKey) # keyMap) newItem =
     ebind (getProp item oldKey) (\<lambda>v.
       fillItem item keyMap
         (if truthy v \<and> v \<noteq> JStr ''-'' then setProp newItem newKey v else newItem))"

text \<open>
  The callback of \<open>map\<close> (lines 67 to 78): null (\<open>None\<close>) for an element that is not an
  object, the new item otherwise.
\<close>

definition cleanItem ::
  "(string \<times> string) list \<Rightarrow> jsval \<Rightarrow> js_error + (string \<times> jsval) list option" where
  "cleanItem keyMap item =
     (if typeof_js item \<noteq> ''object'' \<or> item = JNull then Inr None
      else ebind (fillItem item keyMap []) (\<lambda>newItem. Inr (Some newItem)))"

fun mapItems ::
  "(string \<times> string) list \<Rightarrow> jsval list \<Rightarrow> js_error + (string \<times> jsval) list option list" where
  "mapItems keyMap [] = Inr []"
| "mapItems keyMap (item # items) =
     ebind (cleanItem keyMap item) (\<lambda>y.
       ebind (mapItems keyMap items) (\<lambda>ys. Inr (y # ys)))"

text \<open>The predicate of \<open>filter\<close> (line 79), and the items it keeps as objects.\<close>

fun keepItem :: "(string \<times> jsval) list option \<Rightarrow> bool" where
  "keepItem None = False"
| "keepItem (Some newItem) = (length (map fst newItem) > 0)"

fun keptItems :: "(string \<times> jsval) list option list \<Rightarrow> jsval list" where
  "keptItems [] = []"
| "keptItems (None # ys) = keptItems ys"
| "keptItems (Some newItem # ys) =
     (if keepItem (Some newItem) then JObj newItem # keptItems ys else keptItems ys)"

definition processDetailBlock ::
  "jsval \<Rightarrow> string option \<Rightarrow> (string \<times> string) list \<Rightarrow> js_error + jsval" where
  "processDetailBlock detailBlock dataKey keyMap =
     (if \<not> truthy detailBlock then Inr (JArr [])
      else
        ebind (resolveRawData detailBlock dataKey) (\<lambda>raw.
          case raw of
            None \<Rightarrow> Inr (JArr [])
          | Some rawData \<Rightarrow>
              (let dataArray = (case rawData of JArr xs \<Rightarrow> xs | _ \<Rightarrow> [rawData])
               in ebind (mapItems keyMap dataArray) (\<lambda>ys. Inr (JArr (keptItems ys))))))"

section \<open>The main transformation\<close>

text \<open>
  \<open>cleanCreditData\<close> (lines 89 to 208). Line 91 finds the report node along the anchor
  path, or takes the empty object.
\<close>

definition creditReportOf :: "jsval \<Rightarrow> js_error + jsval" where
  "creditReportOf inputData =
     ebind (optGet inputData ''body'') (\<lambda>body.
     ebind (optGet body ''SPCA-XML'') (\<lambda>spca.
     ebind (optGet spca ''RESPOSTA'') (\<lambda>resposta.
     ebind (optGet resposta ''ACERTA'') (\<lambda>acerta.
       Inr (if truthy acerta then acerta else JObj [])))))"

text \<open>The read \<open>creditReport.k1?.k2\<close>.\<close>

definition field2 :: "jsval \<Rightarrow> string \<Rightarrow> string \<Rightarrow> js_error + jsval" where
  "field2 creditReport k1 k2 = ebind (getProp creditReport k1) (\<lambda>node. optGet node k2)"

text \<open>\<open>a || b\<close> on values, and \<open>n || 0\<close> on a number.\<close>

definition orElse :: "jsval \<Rightarrow> jsval \<Rightarrow> jsval" where
  "orElse a b = (if truthy a then a else b)"

definition orZero :: "jsnum \<Rightarrow> jsnum" where
  "orZero n = (if numTruthy n then n else Fin 0)"

text \<open>Lines 94 to 104: the sums of the principal's and the guarantor's figures.\<close>

definition combinedDebitQty :: "(jsnum \<Rightarrow> string) \<Rightarrow> jsval \<Rightarrow> js_error + jsnum" where
  "combinedDebitQty nf debitSummary =
     ebind (optGet debitSummary ''TOTALDEVEDOR'') (\<lambda>devedor.
     ebind (parseInt_js nf devedor) (\<lambda>p.
     ebind (optGet debitSummary ''TOTALAVALISTA'') (\<lambda>avalista.
     ebind (parseInt_js nf avalista) (\<lambda>g.
       (let qtyPrincipal = orZero p; qtyGuarantor = orZero g
        in Inr (numAdd qtyPrincipal qtyGuarantor))))))"

definition combinedDebitValue :: "jsval \<Rightarrow> js_error + jsnum" where
  "combinedDebitValue debitSummary =
     ebind (optGet debitSummary ''VALORACOMULADO'') (\<lambda>acumulado.
     ebind (optGet debitSummary ''VALORAVALISTA'') (\<lambda>avalista.
       (let valPrincipal = parseMonetaryValue acumulado;
            valGuarantor = parseMonetaryValue avalista
        in Inr (numAdd valPrincipal valGuarantor))))"

text \<open>Lines 108 to 114.\<close>

definition identificationOf :: "jsval \<Rightarrow> js_error + jsval" where
  "identificationOf creditReport =
     ebind (field2 creditReport ''IDENTIFICACAO'' ''NOME'') (\<lambda>name.
     ebind (field2 creditReport ''IDENTIFICACAO'' ''DOCUMENTO'') (\<lambda>document.
     ebind (field2 creditReport ''IDENTIFICACAO'' ''DATANASCIMENTO'') (\<lambda>birthDate.
     ebind (field2 creditReport ''IDENTIFICACAO'' ''SITUACAORECEITA'') (\<lambda>taxStatus.
     ebind (field2 creditReport ''STATUS-CONSUMIDOR'' ''MENSAGEM'') (\<lambda>consumerStatus.
       Inr (JObj [(''name'', name), (''document'', document), (''birthDate'', birthDate),
                  (''taxStatus'', taxStatus), (''consumerStatus'', consumerStatus)]))))))"

text \<open>
  Lines 116 to 123. The address is the template literal of lines 117 to 119, each part
  converted to a string, and the whole trimmed.
\<close>

definition addressOf :: "(jsnum \<Rightarrow> string) \<Rightarrow> jsval \<Rightarrow> js_error + string" where
  "addressOf nf creditReport =
     ebind (field2 creditReport ''LOCALIZACAO'' ''TIPOLOGRADOURO'') (\<lambda>tipo.
     ebind (toString_js nf (orElse tipo (JStr []))) (\<lambda>s1.
     ebind (field2 creditReport ''LOCALIZACAO'' ''NOMELOGRADOURO'') (\<lambda>nome.
     ebind (toString_js nf (orElse nome (JStr []))) (\<lambda>s2.
     ebind (field2 creditReport ''LOCALIZACAO'' ''NUMEROLOGRADOURO'') (\<lambda>numero.
     ebind (toString_js nf (orElse numero (JStr []))) (\<lambda>s3.
       Inr (trim (s1 @ '' '' @ s2 @ '', '' @ s3))))))))"

definition locationOf :: "(jsnum \<Rightarrow> string) \<Rightarrow> jsval \<Rightarrow> js_error + jsval" where
  "locationOf nf creditReport =
     ebind (addressOf nf creditReport) (\<lambda>address.
     ebind (field2 creditReport ''LOCALIZACAO'' ''CIDADE'') (\<lambda>city.
     ebind (field2 creditReport ''LOCALIZACAO'' ''UNIDADEFEDERATIVA'') (\<lambda>state.
     ebind (field2 creditReport ''LOCALIZACAO'' ''CEP'') (\<lambda>zipCode.
       Inr (JObj [(''address'', JStr address), (''city'', city), (''state'', state),
                  (''zipCode'', zipCode)])))))"

text \<open>Lines 125 to 141; the two sums come from lines 99 and 104.\<close>

definition financialSummaryOf ::
  "(jsnum \<Rightarrow> string) \<Rightarrow> jsval \<Rightarrow> jsnum \<Rightarrow> jsnum \<Rightarrow> js_error + jsval" where
  "financialSummaryOf nf creditReport qty val =
     ebind (field2 creditReport ''RESUMO-TITULOS-PROTESTADOS'' ''TOTAL'') (\<lambda>total.
     ebind (parseInt_js nf (orElse total (JStr ''0''))) (\<lambda>protestsQty.
     ebind (field2 creditReport ''RESUMO-TITULOS-PROTESTADOS'' ''VALORACUMULADO'') (\<lambda>valor.
     ebind (field2 creditReport ''RESUMO-DE-ACOES-CIVEIS'' ''QUANTIDADE'') (\<lambda>quantidade.
     ebind (parseInt_js nf (orElse quantidade (JStr ''0''))) (\<lambda>legalActionsQty.
     ebind (field2 creditReport ''RESUMO-DEVOLUCOES-INFORMADAS-PELO-CCF'' ''TOTALOCORRENCAS'')
       (\<lambda>ocorrencias.
     ebind (parseInt_js nf (orElse ocorrencias (JStr ''0''))) (\<lambda>bouncedChecksQty.
       Inr (JObj [(''totalDebtsQty'', JNum qty),
                  (''totalDebtsValue'', JNum val),
                  (''protestsQty'', JNum protestsQty),
                  (''protestsValue'', JNum (parseMonetaryValue valor)),
                  (''legalActionsQty'', JNum legalActionsQty),
                  (''bouncedChecksQty'', JNum bouncedChecksQty)]))))))))"

text \<open>The rename maps and data keys of lines 144 to 204.\<close>

definition scoreMap :: "(string \<times> string) list" where
  "scoreMap = [(''NOMESCORE'', ''scoreName''), (''SCORE'', ''points''),
     (''CLASSIFICACAOALFABETICA'', ''ratingClass''), (''TEXTO'', ''description''),
     (''DESCRICAONATUREZA'', ''type'')]"

definition debtsMap :: "(string \<times> string) list" where
  "debtsMap = [(''DATAOCORRENCIA'', ''date''), (''VALOR'', ''value''),
     (''INFORMANTE'', ''creditor''), (''CONTRATO'', ''contractId'')]"

definition protestsMap :: "(string \<times> string) list" where
  "protestsMap = [(''DATAOCORRENCIA'', ''date''), (''VALOR'', ''value''),
     (''CIDADE'', ''city''), (''CARTORIO'', ''registryOffice'')]"

definition civilActionsMap :: "(string \<times> string) list" where
  "civilActionsMap = [(''DATADISTRIBUICAO'', ''distributionDate''), (''VALOR'', ''value''),
     (''ACAOCIVEL'', ''actionType''), (''AUTOR'', ''plaintiff'')]"

definition bankruptcyMap :: "(string \<times> string) list" where
  "bankruptcyMap = [(''RAZAOSOCIAL'', ''companyName''), (''TIPOOCORRENCIA'', ''type''),
     (''DATAOCORRENCIA'', ''date'')]"

definition participationMap :: "(string \<times> string) list" where
  "participationMap = [(''RAZAOSOCIAL'', ''companyName''), (''NUMERODOCUMENTOB'', ''cnpj''),
     (''FUNCAO'', ''role''), (''DATADEENTRADA'', ''entryDate''),
     (''VALOREMPERCENTUAL'', ''ownershipPercentage'')]"

text \<open>A section: the block read from the report, handed to \<open>processDetailBlock\<close>.\<close>

definition sectionOf ::
  "jsval \<Rightarrow> string \<Rightarrow> string option \<Rightarrow> (string \<times> string) list \<Rightarrow> js_error + jsval" where
  "sectionOf creditReport anchor dataKey keyMap =
     ebind (getProp creditReport anchor) (\<lambda>block. processDetailBlock block dataKey keyMap)"

definition negativeDetailsOf :: "jsval \<Rightarrow> js_error + jsval" where
  "negativeDetailsOf creditReport =
     ebind (sectionOf creditReport ''DEBITOS'' (Some ''DEBITO'') debtsMap) (\<lambda>debts.
     ebind (sectionOf creditReport ''TITULOS-PROTESTADOS'' (Some ''TITULO-PROTESTADO'')
              protestsMap) (\<lambda>protests.
     ebind (sectionOf creditReport ''RELACAO-DE-ACOES-CIVEIS'' (Some ''ACAO-CIVEL'')
              civilActionsMap) (\<lambda>civilActions.
     ebind (sectionOf creditReport ''RELACAO-FALENCIA-RECUPERACAO-JUDICIAL''
              (Some ''FALENCIA-RECUPERACAO-JUDICIAL'') bankruptcyMap) (\<lambda>bankruptcy.
       Inr (JObj [(''debts'', debts), (''protests'', protests),
                  (''civilActions'', civilActions), (''bankruptcy'', bankruptcy)])))))"

definition cleanCreditData :: "(jsnum \<Rightarrow> string) \<Rightarrow> jsval \<Rightarrow> js_error + jsval" where
  "cleanCreditData nf inputData =
     ebind (creditReportOf inputData) (\<lambda>creditReport.
     ebind (getProp creditReport ''RESUMO-OCORRENCIAS-DE-DEBITOS'') (\<lambda>debitSummary.
     ebind (combinedDebitQty nf debitSummary) (\<lambda>qty.
     ebind (combinedDebitValue debitSummary) (\<lambda>val.
     ebind (identificationOf creditReport) (\<lambda>identification.
     ebind (locationOf nf creditReport) (\<lambda>location.
     ebind (financialSummaryOf nf creditReport qty val) (\<lambda>financialSummary.
     ebind (sectionOf creditReport ''SCORE-CLASSIFICACAO-VARIOS-MODELOS'' None scoreMap)
       (\<lambda>riskScore.
     ebind (negativeDetailsOf creditReport) (\<lambda>negativeDetails.
     ebind (sectionOf creditReport ''PARTICIPACOES-DO-DOCUMENTO-CONSULTADO''
              (Some ''PARTICIPACAO-EM-EMPRESA'') participationMap) (\<lambda>corporateParticipation.
       Inr (JObj [(''identification'', identification),
                  (''location'', location),
                  (''financialSummary'', financialSummary),
                  (''riskScore'', riskScore),
                  (''negativeDetails'', negativeDetails),
                  (''corporateParticipation'', corporateParticipation)])))))))))))"

section \<open>Notions the properties are stated with\<close>

text \<open>The own property of a value at a key, or \<open>undefined\<close>: what a read yields when it does not throw.\<close>

fun ownProp :: "jsval \<Rightarrow> string \<Rightarrow> jsval" where
  "ownProp (JObj ps) k = (case map_of ps k of Some v \<Rightarrow> v | None \<Rightarrow> JUndefined)"
| "ownProp v k = JUndefined"

text \<open>A raw document whose node at the anchor path is \<open>acerta\<close>.\<close>

definition documentWith :: "jsval \<Rightarrow> jsval" where
  "documentWith acerta =
     JObj [(''body'', JObj [(''SPCA-XML'', JObj [(''RESPOSTA'', JObj [(''ACERTA'', acerta)])])])]"

text \<open>The report node that line 91 finds in a document.\<close>

definition reportNode :: "jsval \<Rightarrow> jsval" where
  "reportNode inputData =
     (let acerta = ownProp (ownProp (ownProp (ownProp inputData ''body'') ''SPCA-XML'')
                     ''RESPOSTA'') ''ACERTA''
      in if truthy acerta then acerta else JObj [])"

text \<open>
  The values \<open>cleanCreditData\<close> converts to strings: the two quantities of the debit summary
  (lines 97 and 98), the three parts of the address (lines 117 to 119) and the three
  counters of lines 128 to 140.
\<close>

definition convertedValues :: "jsval \<Rightarrow> jsval list" where
  "convertedValues inputData =
     (let cr = reportNode inputData;
          ds = ownProp cr ''RESUMO-OCORRENCIAS-DE-DEBITOS'';
          loc = ownProp cr ''LOCALIZACAO''
      in [ownProp ds ''TOTALDEVEDOR'', ownProp ds ''TOTALAVALISTA'',
          ownProp loc ''TIPOLOGRADOURO'', ownProp loc ''NOMELOGRADOURO'',
          ownProp loc ''NUMEROLOGRADOURO'',
          ownProp (ownProp cr ''RESUMO-TITULOS-PROTESTADOS'') ''TOTAL'',
          ownProp (ownProp cr ''RESUMO-DE-ACOES-CIVEIS'') ''QUANTIDADE'',
          ownProp (ownProp cr ''RESUMO-DEVOLUCOES-INFORMADAS-PELO-CCF'') ''TOTALOCORRENCAS''])"

text \<open>
  A value whose conversion to a string succeeds: no object with an own property
  \<open>toString\<close>, at the top or in the elements of an array.
\<close>

fun stringifiable :: "jsval \<Rightarrow> bool"
and allStringifiable :: "jsval list \<Rightarrow> bool" where
  "stringifiable (JObj ps) = (''toString'' \<notin> set (map fst ps))"
| "stringifiable (JArr xs) = allStringifiable xs"
| "stringifiable v = True"
| "allStringifiable [] = True"
| "allStringifiable (x # xs) = (stringifiable x \<and> allStringifiable xs)"

text \<open>The names of the six parts of the output.\<close>

definition payloadFields :: "string list" where
  "payloadFields = [''identification'', ''location'', ''financialSummary'', ''riskScore'',
     ''negativeDetails'', ''corporateParticipation'']"

fun objectKeys :: "jsval \<Rightarrow> string list" where
  "objectKeys (JObj ps) = map fst ps"
| "objectKeys v = []"

text \<open>
  The test of line 73 on a source key of an element, the element's record under a rename
  map, and the records of a raw list: an element counts when it is an object (or an
  array) and its record has a key.
\<close>

definition qualifies :: "jsval \<Rightarrow> string \<Rightarrow> bool" where
  "qualifies item oldKey = (truthy (ownProp item oldKey) \<and> ownProp item oldKey \<noteq> JStr ''-'')"

fun renamed :: "jsval \<Rightarrow> (string \<times> string) list \<Rightarrow> (string \<times> jsval) list \<Rightarrow> (string \<times> jsval) list" where
  "renamed item [] acc = acc"
| "renamed item ((oldKey, newKey) # keyMap) acc =
     renamed item keyMap
       (if qualifies item oldKey then setProp acc newKey (ownProp item oldKey) else acc)"

definition isRecord :: "jsval \<Rightarrow> bool" where
  "isRecord item = (case item of JObj ps \<Rightarrow> True | JArr xs \<Rightarrow> True | _ \<Rightarrow> False)"

definition emitted :: "(string \<times> string) list \<Rightarrow> jsval \<Rightarrow> bool" where
  "emitted keyMap item = (isRecord item \<and> renamed item keyMap [] \<noteq> [])"

definition mapRecords :: "(string \<times> string) list \<Rightarrow> jsval list \<Rightarrow> jsval list" where
  "mapRecords keyMap raw = map (\<lambda>item. JObj (renamed item keyMap [])) (filter (emitted keyMap) raw)"

text \<open>
  The shapes of a record block, and the raw record list of each shape: a wrapped value that
  is a single record is promoted to a list of one.
\<close>

datatype blockShape =
    AbsentBlock
  | DirectSequence "jsval list"
  | WrapperWithFlag jsval
  | BareSingleRecord jsval
  | OtherShape

fun recordList :: "blockShape \<Rightarrow> jsval list" where
  "recordList AbsentBlock = []"
| "recordList (DirectSequence xs) = xs"
| "recordList (WrapperWithFlag v) = (case v of JArr xs \<Rightarrow> xs | _ \<Rightarrow> [v])"
| "recordList (BareSingleRecord b) = [b]"
| "recordList OtherShape = []"

definition hasKey :: "jsval \<Rightarrow> string \<Rightarrow> bool" where
  "hasKey v k = (k \<in> set (objectKeys v))"

text \<open>
  The shape resolution in the words of the specification: a keyed object flagged
  \<open>REGISTRO = "S"\<close> is a wrapper when it contains the \<open>dataKey\<close>.
\<close>

definition statedShape :: "jsval \<Rightarrow> string option \<Rightarrow> blockShape" where
  "statedShape block dataKey =
     (if \<not> truthy block then AbsentBlock
      else case block of
        JArr xs \<Rightarrow> DirectSequence xs
      | JObj ps \<Rightarrow>
          (if ownProp block ''REGISTRO'' = JStr ''S'' then
             (case dataKey of
                Some k \<Rightarrow>
                  (if hasKey block k then WrapperWithFlag (ownProp block k)
                   else BareSingleRecord block)
              | None \<Rightarrow> BareSingleRecord block)
           else OtherShape)
      | _ \<Rightarrow> OtherShape)"

text \<open>
  The same resolution, with the wrapper recognised as the source does: the \<open>dataKey\<close> is a
  non-empty string and the value at it is truthy.
\<close>

definition resolvedShape :: "jsval \<Rightarrow> string option \<Rightarrow> blockShape" where
  "resolvedShape block dataKey =
     (if \<not> truthy block then AbsentBlock
      else case block of
        JArr xs \<Rightarrow> DirectSequence xs
      | JObj ps \<Rightarrow>
          (if ownProp block ''REGISTRO'' = JStr ''S'' then
             (case dataKey of
                Some k \<Rightarrow>
                  (if k \<noteq> [] \<and> truthy (ownProp block k) then WrapperWithFlag (ownProp block k)
                   else BareSingleRecord block)
              | None \<Rightarrow> BareSingleRecord block)
           else OtherShape)
      | _ \<Rightarrow> OtherShape)"

text \<open>The records of a section of the report, without the exception layer.\<close>

definition sectionRecords ::
  "jsval \<Rightarrow> string \<Rightarrow> string option \<Rightarrow> (string \<times> string) list \<Rightarrow> jsval" where
  "sectionRecords creditReport anchor dataKey keyMap =
     JArr (mapRecords keyMap (recordList (resolvedShape (ownProp creditReport anchor) dataKey)))"

text \<open>
  The parts of the output that no conversion to a string stands before: the
  identification, the sum of the monetary values, and the detail sections.
\<close>

definition identificationPart :: "jsval \<Rightarrow> jsval" where
  "identificationPart cr =
     JObj [(''name'', ownProp (ownProp cr ''IDENTIFICACAO'') ''NOME''),
           (''document'', ownProp (ownProp cr ''IDENTIFICACAO'') ''DOCUMENTO''),
           (''birthDate'', ownProp (ownProp cr ''IDENTIFICACAO'') ''DATANASCIMENTO''),
           (''taxStatus'', ownProp (ownProp cr ''IDENTIFICACAO'') ''SITUACAORECEITA''),
           (''consumerStatus'', ownProp (ownProp cr ''STATUS-CONSUMIDOR'') ''MENSAGEM'')]"

definition debitValuePart :: "jsval \<Rightarrow> jsnum" where
  "debitValuePart cr =
     numAdd (parseMonetaryValue (ownProp (ownProp cr ''RESUMO-OCORRENCIAS-DE-DEBITOS'') ''VALORACOMULADO''))
            (parseMonetaryValue (ownProp (ownProp cr ''RESUMO-OCORRENCIAS-DE-DEBITOS'') ''VALORAVALISTA''))"

definition negativeDetailsPart :: "jsval \<Rightarrow> jsval" where
  "negativeDetailsPart cr =
     JObj [(''debts'', sectionRecords cr ''DEBITOS'' (Some ''DEBITO'') debtsMap),
           (''protests'',
              sectionRecords cr ''TITULOS-PROTESTADOS'' (Some ''TITULO-PROTESTADO'') protestsMap),
           (''civilActions'',
              sectionRecords cr ''RELACAO-DE-ACOES-CIVEIS'' (Some ''ACAO-CIVEL'') civilActionsMap),
           (''bankruptcy'',
              sectionRecords cr ''RELACAO-FALENCIA-RECUPERACAO-JUDICIAL''
                (Some ''FALENCIA-RECUPERACAO-JUDICIAL'') bankruptcyMap)]"

text \<open>
  The degraded output: every scalar of the identification and the location undefined, the
  address a lone comma, every figure zero and every section empty.
\<close>

definition degradedPayload :: jsval where
  "degradedPayload =
     JObj [(''identification'',
              JObj [(''name'', JUndefined), (''document'', JUndefined),
                    (''birthDate'', JUndefined), (''taxStatus'', JUndefined),
                    (''consumerStatus'', JUndefined)]),
           (''location'',
              JObj [(''address'', JStr '',''), (''city'', JUndefined), (''state'', JUndefined),
                    (''zipCode'', JUndefined)]),
           (''financialSummary'',
              JObj [(''totalDebtsQty'', JNum (Fin 0)), (''totalDebtsValue'', JNum (Fin 0)),
                    (''protestsQty'', JNum (Fin 0)), (''protestsValue'', JNum (Fin 0)),
                    (''legalActionsQty'', JNum (Fin 0)), (''bouncedChecksQty'', JNum (Fin 0))]),
           (''riskScore'', JArr []),
           (''negativeDetails'',
              JObj [(''debts'', JArr []), (''protests'', JArr []), (''civilActions'', JArr []),
                    (''bankruptcy'', JArr [])]),
           (''corporateParticipation'', JArr [])]"

text \<open>
  The keys for which the reads and writes of \<open>processDetailBlock\<close> are those of the model.
  Every name that a prototype provides (\<open>toString\<close>, \<open>constructor\<close>, \<open>__proto__\<close>, ...) and
  the name \<open>length\<close> begin with a lower-case letter or an underscore, and an index begins
  with a digit. So a key that begins with an upper-case letter, as the field codes of the
  bureau do, is read as an own property of an object or as \<open>undefined\<close>; and a new key that
  begins with a letter is neither \<open>__proto__\<close> nor an index, so that the assignment of line
  74 creates an own property, kept in insertion order.

  A \<open>dataKey\<close> is usable when it is null, empty (both falsy: line 50 reads nothing) or a
  field code. A rename map is a list of pairs from field codes to output names with distinct
  field codes, as the keys of an object are.
\<close>

definition isUpper :: "char \<Rightarrow> bool" where
  "isUpper c = (65 \<le> (of_char c :: nat) \<and> (of_char c :: nat) \<le> 90)"

definition isLower :: "char \<Rightarrow> bool" where
  "isLower c = (97 \<le> (of_char c :: nat) \<and> (of_char c :: nat) \<le> 122)"

fun fieldCode :: "string \<Rightarrow> bool" where
  "fieldCode [] = False"
| "fieldCode (c # cs) = isUpper c"

fun outputName :: "string \<Rightarrow> bool" where
  "outputName [] = False"
| "outputName (c # cs) = (isUpper c \<or> isLower c)"

fun usableDataKey :: "string option \<Rightarrow> bool" where
  "usableDataKey None = True"
| "usableDataKey (Some k) = (k = [] \<or> fieldCode k)"

definition renameMap :: "(string \<times> string) list \<Rightarrow> bool" where
  "renameMap keyMap =
     (distinct (map fst keyMap) \<and> list_all fieldCode (map fst keyMap) \<and>
      list_all outputName (map snd keyMap))"

section \<open>Reads that cannot throw\<close>

lemma ebind_Inr: "ebind (Inr x) f = f x" by (simp add: ebind_def)
lemma ebind_Inl: "ebind (Inl e) f = Inl e" by (simp add: ebind_def)

lemma optGet_ownProp: "optGet v k = Inr (ownProp v k)"
  by (cases v) (simp_all add: optGet_def)

lemma getProp_ownProp: "v \<noteq> JUndefined \<Longrightarrow> v \<noteq> JNull \<Longrightarrow> getProp v k = Inr (ownProp v k)"
  by (cases v) simp_all

lemma getProp_truthy: "truthy v \<Longrightarrow> getProp v k = Inr (ownProp v k)"
  by (cases v) simp_all

lemma getProp_isRecord: "isRecord v \<Longrightarrow> getProp v k = Inr (ownProp v k)"
  by (cases v) (simp_all add: isRecord_def)

lemma truthy_reportNode: "truthy (reportNode x)"
  by (simp add: reportNode_def Let_def)

lemma creditReportOf_eq: "creditReportOf x = Inr (reportNode x)"
  by (simp add: creditReportOf_def reportNode_def optGet_ownProp ebind_Inr Let_def)

lemma field2_eq: "truthy cr \<Longrightarrow> field2 cr a b = Inr (ownProp (ownProp cr a) b)"
  by (simp add: field2_def getProp_truthy ebind_Inr optGet_ownProp)

lemma reportNode_documentWith: "truthy a \<Longrightarrow> reportNode (documentWith a) = a"
  by (simp add: reportNode_def documentWith_def)

lemma isRecord_typeof: "isRecord item = (\<not> (typeof_js item \<noteq> ''object'' \<or> item = JNull))"
  by (cases item) (simp_all add: isRecord_def)

lemma fillItem_renamed: "isRecord item \<Longrightarrow> fillItem item km acc = Inr (renamed item km acc)"
proof (induction km arbitrary: acc)
  case Nil
  then show ?case by simp
next
  case (Cons p km)
  obtain old new where p: "p = (old, new)" by (cases p)
  show ?case using Cons
    by (simp add: p getProp_isRecord ebind_Inr qualifies_def)
qed

lemma cleanItem_eq:
  "cleanItem km item = Inr (if isRecord item then Some (renamed item km []) else None)"
  by (simp add: cleanItem_def isRecord_typeof fillItem_renamed ebind_Inr)

lemma mapItems_eq:
  "mapItems km items = Inr (map (\<lambda>item. if isRecord item then Some (renamed item km []) else None) items)"
  by (induction items) (simp_all add: cleanItem_eq ebind_Inr)

lemma keptItems_eq:
  "keptItems (map (\<lambda>item. if isRecord item then Some (renamed item km []) else None) items)
     = mapRecords km items"
  by (induction items) (simp_all add: mapRecords_def emitted_def)

lemma resolveRawData_eq:
  "truthy b \<Longrightarrow> resolveRawData b dk =
     Inr (case resolvedShape b dk of
            DirectSequence xs \<Rightarrow> Some (JArr xs)
          | WrapperWithFlag v \<Rightarrow> Some v
          | BareSingleRecord r \<Rightarrow> Some r
          | _ \<Rightarrow> None)"
  by (cases b; cases dk)
     (simp_all add: resolveRawData_def wrapperTest_def singleRecordTest_def resolvedShape_def
        ebind_Inr ebind_Inl)

lemma resolvedShape_bare:
  "resolvedShape b dk = BareSingleRecord r \<Longrightarrow> \<exists>ps. r = JObj ps"
  by (cases b; cases dk) (auto simp: resolvedShape_def split: if_splits)

lemma processDetailBlock_eq:
  "processDetailBlock b dk km = Inr (JArr (mapRecords km (recordList (resolvedShape b dk))))"
proof (cases "truthy b")
  case False
  then show ?thesis by (simp add: processDetailBlock_def resolvedShape_def mapRecords_def)
next
  case True
  show ?thesis
  proof (cases "resolvedShape b dk")
    case (BareSingleRecord r)
    then obtain ps where "r = JObj ps" using resolvedShape_bare by blast
    with True BareSingleRecord show ?thesis
      by (simp add: processDetailBlock_def resolveRawData_eq ebind_Inr mapItems_eq keptItems_eq
          mapRecords_def emitted_def isRecord_def)
  qed (use True in \<open>simp_all add: processDetailBlock_def resolveRawData_eq ebind_Inr mapItems_eq
          keptItems_eq mapRecords_def Let_def split: jsval.splits\<close>)
qed

lemma map_fst_setProp:
  "map fst (setProp ps k v) = (if k \<in> set (map fst ps) then map fst ps else map fst ps @ [k])"
proof -
  have "map fst (map (\<lambda>p. if fst p = k then (k, v) else p) ps) = map fst ps"
    by (induction ps) auto
  then show ?thesis by (simp add: setProp_def)
qed

lemma set_setProp_keys: "fst ` set (setProp ps k v) = insert k (fst ` set ps)"
proof -
  have "fst ` set (setProp ps k v) = set (map fst (setProp ps k v))" by simp
  also have "\<dots> = insert k (fst ` set ps)"
    unfolding map_fst_setProp by auto
  finally show ?thesis .
qed

lemma setProp_entries:
  "(k', v') \<in> set (setProp ps k v) \<Longrightarrow> (k', v') \<in> set ps \<or> (k' = k \<and> v' = v)"
  by (auto simp: setProp_def split: if_splits)

lemma renamed_keys:
  "fst ` set (renamed item km acc) =
     fst ` set acc \<union> {new. \<exists>old. (old, new) \<in> set km \<and> qualifies item old}"
proof (induction km arbitrary: acc)
  case Nil
  then show ?case by simp
next
  case (Cons p km)
  obtain old new where p: "p = (old, new)" by (cases p)
  show ?case
    unfolding p by (auto simp: Cons.IH set_setProp_keys)
qed

lemma renamed_entries:
  "(k, v) \<in> set (renamed item km acc) \<Longrightarrow>
     (k, v) \<in> set acc \<or> (\<exists>old. (old, k) \<in> set km \<and> qualifies item old \<and> v = ownProp item old)"
proof (induction km arbitrary: acc)
  case Nil
  then show ?case by simp
next
  case (Cons p km)
  obtain old new where p: "p = (old, new)" by (cases p)
  from Cons.prems have
    "(k, v) \<in> set (if qualifies item old then setProp acc new (ownProp item old) else acc)
       \<or> (\<exists>old'. (old', k) \<in> set km \<and> qualifies item old' \<and> v = ownProp item old')"
    unfolding p using Cons.IH by simp
  then show ?case
    unfolding p by (auto dest: setProp_entries split: if_splits)
qed

lemma renamed_nonempty:
  "(renamed item km [] \<noteq> []) = (\<exists>p\<in>set km. qualifies item (fst p))"
proof -
  have "(renamed item km [] \<noteq> []) = (fst ` set (renamed item km []) \<noteq> {})" by simp
  also have "\<dots> = (\<exists>p\<in>set km. qualifies item (fst p))"
    unfolding renamed_keys by force
  finally show ?thesis .
qed

lemma toString_stringifiable:
  "(\<exists>s. toString_js nf v = Inr s) = stringifiable v"
  "(\<exists>s. joinElems nf xs = Inr s) = allStringifiable xs"
  by (induction nf v and nf xs rule: toString_js_joinElems.induct)
     (auto split: sum.splits)


section \<open>The main transformation without the exception layer\<close>

lemma ebind_eq_Inr: "(ebind m f = Inr y) = (\<exists>x. m = Inr x \<and> f x = Inr y)"
  by (cases m) (simp_all add: ebind_def)

lemma sectionOf_eq:
  "truthy cr \<Longrightarrow> sectionOf cr anchor dk km = Inr (sectionRecords cr anchor dk km)"
  by (simp add: sectionOf_def getProp_truthy ebind_Inr processDetailBlock_eq sectionRecords_def)

lemma identificationOf_eq: "truthy cr \<Longrightarrow> identificationOf cr = Inr (identificationPart cr)"
  by (simp add: identificationOf_def field2_eq ebind_Inr identificationPart_def)

lemma negativeDetailsOf_eq: "truthy cr \<Longrightarrow> negativeDetailsOf cr = Inr (negativeDetailsPart cr)"
  by (simp add: negativeDetailsOf_def sectionOf_eq ebind_Inr negativeDetailsPart_def)

lemma combinedDebitValue_eq:
  "combinedDebitValue (ownProp cr ''RESUMO-OCORRENCIAS-DE-DEBITOS'') = Inr (debitValuePart cr)"
  by (simp add: combinedDebitValue_def optGet_ownProp ebind_Inr debitValuePart_def)

lemma cleanCreditData_unfold:
  "cleanCreditData nf x =
     ebind (combinedDebitQty nf (ownProp (reportNode x) ''RESUMO-OCORRENCIAS-DE-DEBITOS'')) (\<lambda>qty.
     ebind (locationOf nf (reportNode x)) (\<lambda>location.
     ebind (financialSummaryOf nf (reportNode x) qty (debitValuePart (reportNode x)))
       (\<lambda>financialSummary.
       Inr (JObj [(''identification'', identificationPart (reportNode x)),
                  (''location'', location),
                  (''financialSummary'', financialSummary),
                  (''riskScore'',
                     sectionRecords (reportNode x) ''SCORE-CLASSIFICACAO-VARIOS-MODELOS'' None
                       scoreMap),
                  (''negativeDetails'', negativeDetailsPart (reportNode x)),
                  (''corporateParticipation'',
                     sectionRecords (reportNode x) ''PARTICIPACOES-DO-DOCUMENTO-CONSULTADO''
                       (Some ''PARTICIPACAO-EM-EMPRESA'') participationMap)]))))"
proof -
  have t: "truthy (reportNode x)" by (rule truthy_reportNode)
  show ?thesis
    unfolding cleanCreditData_def
    by (simp only: creditReportOf_eq ebind_Inr getProp_truthy [OF t] combinedDebitValue_eq
          identificationOf_eq [OF t] sectionOf_eq [OF t] negativeDetailsOf_eq [OF t])
qed


section \<open>When the transformation returns\<close>

lemma js_error_is_TypeError: "(e :: js_error) = TypeError"
  by (cases e) simp

lemma not_Inr_iff: "(\<nexists>y. m = Inr y) = (m = Inl TypeError)"
  by (cases m) (simp_all add: js_error_is_TypeError)

lemma ebind_ok: "(\<exists>y. ebind m f = Inr y) = (\<exists>x. m = Inr x \<and> (\<exists>y. f x = Inr y))"
  by (cases m) (simp_all add: ebind_def)

lemma parseInt_ok: "(\<exists>n. parseInt_js nf v = Inr n) = stringifiable v"
  by (simp add: parseInt_js_def ebind_ok toString_stringifiable)

lemma stringifiable_orElse: "stringifiable (orElse v (JStr s)) = stringifiable v"
  by (cases v) (simp_all add: orElse_def)

lemma combinedDebitQty_ok:
  "(\<exists>q. combinedDebitQty nf ds = Inr q) =
     (stringifiable (ownProp ds ''TOTALDEVEDOR'') \<and> stringifiable (ownProp ds ''TOTALAVALISTA''))"
  unfolding combinedDebitQty_def optGet_ownProp ebind_Inr ebind_ok Let_def
  using parseInt_ok by auto

lemma addressOf_ok:
  "truthy cr \<Longrightarrow> (\<exists>a. addressOf nf cr = Inr a) =
     (stringifiable (ownProp (ownProp cr ''LOCALIZACAO'') ''TIPOLOGRADOURO'') \<and>
      stringifiable (ownProp (ownProp cr ''LOCALIZACAO'') ''NOMELOGRADOURO'') \<and>
      stringifiable (ownProp (ownProp cr ''LOCALIZACAO'') ''NUMEROLOGRADOURO''))"
  unfolding addressOf_def
  by (simp add: field2_eq ebind_Inr ebind_ok)
     (metis toString_stringifiable(1) stringifiable_orElse)

lemma locationOf_ok:
  "truthy cr \<Longrightarrow> (\<exists>l. locationOf nf cr = Inr l) = (\<exists>a. addressOf nf cr = Inr a)"
  unfolding locationOf_def by (simp add: field2_eq ebind_Inr ebind_ok)

lemma financialSummaryOf_ok:
  "truthy cr \<Longrightarrow> (\<exists>f. financialSummaryOf nf cr qty val = Inr f) =
     (stringifiable (ownProp (ownProp cr ''RESUMO-TITULOS-PROTESTADOS'') ''TOTAL'') \<and>
      stringifiable (ownProp (ownProp cr ''RESUMO-DE-ACOES-CIVEIS'') ''QUANTIDADE'') \<and>
      stringifiable (ownProp (ownProp cr ''RESUMO-DEVOLUCOES-INFORMADAS-PELO-CCF'') ''TOTALOCORRENCAS''))"
  unfolding financialSummaryOf_def
  by (simp add: field2_eq ebind_Inr ebind_ok)
     (metis parseInt_ok stringifiable_orElse)

lemma cleanCreditData_ok:
  "(\<exists>out. cleanCreditData nf x = Inr out) = list_all stringifiable (convertedValues x)"
proof -
  have t: "truthy (reportNode x)" by (rule truthy_reportNode)
  show ?thesis
    unfolding cleanCreditData_unfold ebind_ok
    using combinedDebitQty_ok [of nf "ownProp (reportNode x) ''RESUMO-OCORRENCIAS-DE-DEBITOS''"]
      locationOf_ok [OF t, of nf] addressOf_ok [OF t, of nf]
      financialSummaryOf_ok [OF t, of nf]
    by (auto simp: convertedValues_def Let_def)
qed

lemma cleanCreditData_keys:
  "cleanCreditData nf x = Inr out \<Longrightarrow> objectKeys out = payloadFields"
  unfolding cleanCreditData_unfold
  by (auto simp: ebind_eq_Inr payloadFields_def)


section \<open>The degraded output\<close>

lemma reportNode_documentWith_obj: "reportNode (documentWith (JObj ps)) = JObj ps"
  by (simp add: reportNode_documentWith)

lemma cleanCreditData_same_report:
  "reportNode x = reportNode y \<Longrightarrow> cleanCreditData nf x = cleanCreditData nf y"
  by (simp add: cleanCreditData_unfold)

lemma parseIntStr_undefined: "parseIntStr ''undefined'' = NaN"
  by (simp add: parseIntStr_def isWs_def isDigit_def digitVal_def)

lemma parseIntStr_0: "parseIntStr ''0'' = Fin 0"
  by (simp add: parseIntStr_def isWs_def isDigit_def digitVal_def)

lemma trim_comma: "trim '' , '' = '',''"
  by (simp add: trim_def isWs_def)

lemma cleanCreditData_empty_report:
  "reportNode x = JObj [] \<Longrightarrow> cleanCreditData nf x = Inr degradedPayload"
  unfolding cleanCreditData_unfold
  by (simp add: combinedDebitQty_def optGet_ownProp ebind_Inr parseInt_js_def parseIntStr_undefined
      orZero_def locationOf_def addressOf_def field2_eq orElse_def trim_comma
      financialSummaryOf_def parseIntStr_0 debitValuePart_def parseMonetaryValue_def
      identificationPart_def sectionRecords_def resolvedShape_def mapRecords_def
      negativeDetailsPart_def degradedPayload_def)


section \<open>The fields of an output\<close>

lemma cleanCreditData_parts:
  assumes "cleanCreditData nf x = Inr out"
  shows "\<exists>qty loc fin.
     combinedDebitQty nf (ownProp (reportNode x) ''RESUMO-OCORRENCIAS-DE-DEBITOS'') = Inr qty \<and>
     locationOf nf (reportNode x) = Inr loc \<and>
     financialSummaryOf nf (reportNode x) qty (debitValuePart (reportNode x)) = Inr fin \<and>
     out = JObj [(''identification'', identificationPart (reportNode x)),
                 (''location'', loc),
                 (''financialSummary'', fin),
                 (''riskScore'',
                    sectionRecords (reportNode x) ''SCORE-CLASSIFICACAO-VARIOS-MODELOS'' None
                      scoreMap),
                 (''negativeDetails'', negativeDetailsPart (reportNode x)),
                 (''corporateParticipation'',
                    sectionRecords (reportNode x) ''PARTICIPACOES-DO-DOCUMENTO-CONSULTADO''
                      (Some ''PARTICIPACAO-EM-EMPRESA'') participationMap)]"
  using assms unfolding cleanCreditData_unfold ebind_eq_Inr by blast

lemma financialSummaryOf_fields:
  assumes "truthy cr" and "financialSummaryOf nf cr qty val = Inr fin"
  shows "\<exists>pq lq bq.
     parseInt_js nf (orElse (ownProp (ownProp cr ''RESUMO-TITULOS-PROTESTADOS'') ''TOTAL'')
       (JStr ''0'')) = Inr pq \<and>
     parseInt_js nf (orElse (ownProp (ownProp cr ''RESUMO-DE-ACOES-CIVEIS'') ''QUANTIDADE'')
       (JStr ''0'')) = Inr lq \<and>
     parseInt_js nf (orElse (ownProp (ownProp cr ''RESUMO-DEVOLUCOES-INFORMADAS-PELO-CCF'')
       ''TOTALOCORRENCAS'') (JStr ''0'')) = Inr bq \<and>
     fin = JObj [(''totalDebtsQty'', JNum qty),
                 (''totalDebtsValue'', JNum val),
                 (''protestsQty'', JNum pq),
                 (''protestsValue'', JNum (parseMonetaryValue
                    (ownProp (ownProp cr ''RESUMO-TITULOS-PROTESTADOS'') ''VALORACUMULADO''))),
                 (''legalActionsQty'', JNum lq),
                 (''bouncedChecksQty'', JNum bq)]"
  using assms(2) unfolding financialSummaryOf_def
  by (simp add: field2_eq [OF assms(1)] ebind_Inr ebind_eq_Inr) blast

lemma locationOf_fields:
  assumes "truthy cr" and "locationOf nf cr = Inr loc"
  shows "\<exists>a. addressOf nf cr = Inr a \<and>
     loc = JObj [(''address'', JStr a),
                 (''city'', ownProp (ownProp cr ''LOCALIZACAO'') ''CIDADE''),
                 (''state'', ownProp (ownProp cr ''LOCALIZACAO'') ''UNIDADEFEDERATIVA''),
                 (''zipCode'', ownProp (ownProp cr ''LOCALIZACAO'') ''CEP'')]"
  using assms(2) unfolding locationOf_def
  by (simp add: field2_eq [OF assms(1)] ebind_Inr ebind_eq_Inr) blast

lemma out_totalDebtsQty:
  assumes "cleanCreditData nf x = Inr out"
  shows "\<exists>qty. combinedDebitQty nf (ownProp (reportNode x) ''RESUMO-OCORRENCIAS-DE-DEBITOS'')
           = Inr qty \<and>
         ownProp (ownProp out ''financialSummary'') ''totalDebtsQty'' = JNum qty"
proof -
  from cleanCreditData_parts [OF assms] obtain qty loc fin where
    q: "combinedDebitQty nf (ownProp (reportNode x) ''RESUMO-OCORRENCIAS-DE-DEBITOS'') = Inr qty"
    and f: "financialSummaryOf nf (reportNode x) qty (debitValuePart (reportNode x)) = Inr fin"
    and o: "ownProp out ''financialSummary'' = fin"
    by auto
  from financialSummaryOf_fields [OF truthy_reportNode f]
  have "ownProp fin ''totalDebtsQty'' = JNum qty" by auto
  with q o show ?thesis by auto
qed

lemma out_totalDebtsValue:
  assumes "cleanCreditData nf x = Inr out"
  shows "ownProp (ownProp out ''financialSummary'') ''totalDebtsValue''
           = JNum (debitValuePart (reportNode x))"
proof -
  from cleanCreditData_parts [OF assms] obtain qty loc fin where
    f: "financialSummaryOf nf (reportNode x) qty (debitValuePart (reportNode x)) = Inr fin"
    and o: "ownProp out ''financialSummary'' = fin"
    by auto
  from financialSummaryOf_fields [OF truthy_reportNode f]
  have "ownProp fin ''totalDebtsValue'' = JNum (debitValuePart (reportNode x))" by auto
  with o show ?thesis by simp
qed

lemma out_protestsQty:
  assumes "cleanCreditData nf x = Inr out"
  shows "\<exists>pq. parseInt_js nf (orElse (ownProp (ownProp (reportNode x)
                  ''RESUMO-TITULOS-PROTESTADOS'') ''TOTAL'') (JStr ''0'')) = Inr pq \<and>
         ownProp (ownProp out ''financialSummary'') ''protestsQty'' = JNum pq"
proof -
  from cleanCreditData_parts [OF assms] obtain qty loc fin where
    f: "financialSummaryOf nf (reportNode x) qty (debitValuePart (reportNode x)) = Inr fin"
    and o: "ownProp out ''financialSummary'' = fin"
    by auto
  from financialSummaryOf_fields [OF truthy_reportNode f] o
  show ?thesis by auto
qed

lemma out_debts:
  assumes "cleanCreditData nf x = Inr out"
  shows "ownProp (ownProp out ''negativeDetails'') ''debts''
           = sectionRecords (reportNode x) ''DEBITOS'' (Some ''DEBITO'') debtsMap"
  using cleanCreditData_parts [OF assms] by (auto simp: negativeDetailsPart_def)

lemma out_address:
  assumes "cleanCreditData nf x = Inr out"
  shows "\<exists>a. addressOf nf (reportNode x) = Inr a \<and>
           ownProp (ownProp out ''location'') ''address'' = JStr a"
proof -
  from cleanCreditData_parts [OF assms] obtain qty loc fin where
    l: "locationOf nf (reportNode x) = Inr loc" and o: "ownProp out ''location'' = loc"
    by auto
  from locationOf_fields [OF truthy_reportNode l] o show ?thesis by auto
qed

lemma parseInt_js_string: "parseInt_js nf (JStr s) = Inr (parseIntStr s)"
  by (simp add: parseInt_js_def ebind_Inr)


section \<open>Parsing the examples\<close>

lemma parseIntStr_abc: "parseIntStr ''abc'' = NaN"
  by (simp add: parseIntStr_def isWs_def isDigit_def digitVal_def)

lemma parseIntStr_3: "parseIntStr ''3'' = Fin 3"
  by (simp add: parseIntStr_def isWs_def isDigit_def digitVal_def)

lemma parseIntStr_1: "parseIntStr ''1'' = Fin 1"
  by (simp add: parseIntStr_def isWs_def isDigit_def digitVal_def)

lemmas parse_simps = parseMonetaryValue_def removeDots_def parseFloat_js_def isWs_def
  isDigit_def digitVal_def exponentPart_def

lemma parseMonetaryValue_abc: "parseMonetaryValue (JStr ''abc'') = NaN"
  by (simp add: parse_simps)

lemma parseMonetaryValue_50_50: "parseMonetaryValue (JStr ''50,50'') = Fin 50.5"
  by (simp add: parse_simps)

lemma parseMonetaryValue_100_00: "parseMonetaryValue (JStr ''100,00'') = Fin 100"
  by (simp add: parse_simps)

lemma parseMonetaryValue_empty: "parseMonetaryValue (JStr '''') = NaN"
  by (simp add: parse_simps)

lemma parseMonetaryValue_example: "parseMonetaryValue (JStr ''1.234.567,89'') = Fin 1234567.89"
  by (simp add: parse_simps)

lemma parseMonetaryValue_not_string: "typeof_js v \<noteq> ''string'' \<Longrightarrow> parseMonetaryValue v = Fin 0"
  by (cases v) (simp_all add: parseMonetaryValue_def)

lemma replaceComma_eq:
  "replaceComma t =
     (if CHR '','' \<in> set t
      then takeWhile (\<lambda>c. c \<noteq> CHR '','') t @ ''.'' @ tl (dropWhile (\<lambda>c. c \<noteq> CHR '','') t)
      else t)"
  by (induction t) auto

lemma combinedDebitQty_strings:
  "ownProp ds ''TOTALDEVEDOR'' = JStr a \<Longrightarrow> ownProp ds ''TOTALAVALISTA'' = JStr b \<Longrightarrow>
   combinedDebitQty nf ds = Inr (numAdd (orZero (parseIntStr a)) (orZero (parseIntStr b)))"
  by (simp add: combinedDebitQty_def optGet_ownProp ebind_Inr parseInt_js_string)

lemma returns_when_strings:
  "list_all (\<lambda>v. v = JUndefined \<or> (\<exists>s. v = JStr s)) (convertedValues x) \<Longrightarrow>
   \<exists>out. cleanCreditData nf x = Inr out"
proof -
  assume a: "list_all (\<lambda>v. v = JUndefined \<or> (\<exists>s. v = JStr s)) (convertedValues x)"
  have "stringifiable v" if "v \<in> set (convertedValues x)" for v
  proof -
    from a that have "v = JUndefined \<or> (\<exists>s. v = JStr s)"
      by (simp add: list_all_iff)
    then show ?thesis by auto
  qed
  then have "list_all stringifiable (convertedValues x)"
    by (simp add: list_all_iff)
  then show ?thesis
    by (simp only: cleanCreditData_ok)
qed


section \<open>Trimming\<close>

lemma rev_split: "u = rev (dropWhile P (rev u)) @ rev (takeWhile P (rev u))"
proof -
  have "rev (rev (dropWhile P (rev u)) @ rev (takeWhile P (rev u)))
          = takeWhile P (rev u) @ dropWhile P (rev u)"
    by (simp only: rev_append rev_rev_ident)
  also have "\<dots> = rev u" by simp
  finally have "rev (rev (dropWhile P (rev u)) @ rev (takeWhile P (rev u))) = rev u" .
  then show ?thesis by (simp only: rev_is_rev_conv)
qed

lemma trim_decomp:
  "\<exists>pre suf. s = pre @ trim s @ suf \<and> list_all isWs pre \<and> list_all isWs suf"
proof -
  let ?t = "dropWhile isWs s"
  have 1: "s = takeWhile isWs s @ ?t" by simp
  have 2: "?t = trim s @ rev (takeWhile isWs (rev ?t))"
    unfolding trim_def by (rule rev_split)
  have 3: "list_all isWs (takeWhile isWs s)"
    by (simp add: list_all_iff) (meson set_takeWhileD)
  have 4: "list_all isWs (rev (takeWhile isWs (rev ?t)))"
    by (simp add: list_all_iff) (meson set_takeWhileD)
  from 1 2 have "s = takeWhile isWs s @ trim s @ rev (takeWhile isWs (rev ?t))" by simp
  with 3 4 show ?thesis by blast
qed

lemma trim_keeps:
  assumes "c \<in> set s" and "\<not> isWs c"
  shows "c \<in> set (trim s)"
proof -
  from trim_decomp [of s] obtain pre suf where
    s: "s = pre @ trim s @ suf" and p: "list_all isWs pre" and q: "list_all isWs suf"
    by blast
  from assms(1) s have "c \<in> set pre \<or> c \<in> set (trim s) \<or> c \<in> set suf"
    by (metis Un_iff set_append)
  with p q assms(2) show ?thesis by (auto simp: list_all_iff)
qed

lemma trim_ends:
  assumes "trim s \<noteq> []"
  shows "\<not> isWs (hd (trim s)) \<and> \<not> isWs (last (trim s))"
proof -
  let ?t = "dropWhile isWs s"
  let ?u = "dropWhile isWs (rev ?t)"
  have ts: "trim s = rev ?u" by (simp add: trim_def)
  with assms have u: "?u \<noteq> []" by simp
  then have "\<not> isWs (hd ?u)" by (rule hd_dropWhile)
  then have l: "\<not> isWs (last (trim s))" using u by (simp add: ts last_rev)
  have t: "?t = trim s @ rev (takeWhile isWs (rev ?t))"
    unfolding trim_def by (rule rev_split)
  with assms have tn: "?t \<noteq> []" by (metis append_is_Nil_conv)
  then have "\<not> isWs (hd ?t)" by (rule hd_dropWhile)
  moreover from t assms have "hd ?t = hd (trim s)" by (metis hd_append2)
  ultimately show ?thesis using l by simp
qed

lemma comma_not_ws: "\<not> isWs (CHR '','')"
  by (simp add: isWs_def)

lemma addressOf_parts:
  assumes "truthy cr" and "addressOf nf cr = Inr a"
  shows "\<exists>s1 s2 s3.
     toString_js nf (orElse (ownProp (ownProp cr ''LOCALIZACAO'') ''TIPOLOGRADOURO'') (JStr []))
       = Inr s1 \<and>
     toString_js nf (orElse (ownProp (ownProp cr ''LOCALIZACAO'') ''NOMELOGRADOURO'') (JStr []))
       = Inr s2 \<and>
     toString_js nf (orElse (ownProp (ownProp cr ''LOCALIZACAO'') ''NUMEROLOGRADOURO'') (JStr []))
       = Inr s3 \<and>
     a = trim (s1 @ '' '' @ s2 @ '', '' @ s3)"
  using assms(2) unfolding addressOf_def
  by (simp add: field2_eq [OF assms(1)] ebind_Inr ebind_eq_Inr) blast


section \<open>Outputs on small documents\<close>

lemma reportNode_empty: "reportNode (JObj []) = JObj []"
  by (simp add: reportNode_def)

lemma returns_on_empty: "cleanCreditData nf (JObj []) = Inr degradedPayload"
  by (rule cleanCreditData_empty_report) (rule reportNode_empty)

lemma address_with_street_type_only:
  "cleanCreditData nf (documentWith (JObj [(''LOCALIZACAO'',
       JObj [(''TIPOLOGRADOURO'', JStr ''Rua'')])])) = Inr out \<Longrightarrow>
   ownProp (ownProp out ''location'') ''address'' = JStr ''Rua ,''"
proof -
  assume out: "cleanCreditData nf (documentWith (JObj [(''LOCALIZACAO'',
       JObj [(''TIPOLOGRADOURO'', JStr ''Rua'')])])) = Inr out"
  from out_address [OF out] obtain a where
    a: "addressOf nf (JObj [(''LOCALIZACAO'', JObj [(''TIPOLOGRADOURO'', JStr ''Rua'')])]) = Inr a"
    and o: "ownProp (ownProp out ''location'') ''address'' = JStr a"
    by (auto simp: reportNode_documentWith_obj)
  from a have "a = ''Rua ,''"
    by (simp add: addressOf_def field2_eq ebind_Inr orElse_def trim_def isWs_def)
  with o show ?thesis by simp
qed

lemma reportNode_of_output:
  assumes "cleanCreditData nf x = Inr out"
  shows "reportNode out = JObj []"
proof -
  from cleanCreditData_parts [OF assms] have "ownProp out ''body'' = JUndefined"
    by auto
  then show ?thesis by (simp add: reportNode_def)
qed


section \<open>The records of a block\<close>

lemma emitted_iff:
  "emitted km item = (isRecord item \<and> (\<exists>p\<in>set km. qualifies item (fst p)))"
  by (simp add: emitted_def renamed_nonempty)

lemma renamed_record:
  assumes "emitted km item"
  shows "renamed item km [] \<noteq> []"
    and "new \<in> set (map fst (renamed item km [])) =
           (\<exists>old. (old, new) \<in> set km \<and> qualifies item old)"
    and "(new, v) \<in> set (renamed item km []) \<Longrightarrow>
           v \<noteq> JStr ''-'' \<and> truthy v \<and> (\<exists>old. (old, new) \<in> set km \<and> v = ownProp item old)"
proof -
  show "renamed item km [] \<noteq> []" using assms by (simp add: emitted_def)
  have "set (map fst (renamed item km [])) =
          {new. \<exists>old. (old, new) \<in> set km \<and> qualifies item old}"
    using renamed_keys [of item km "[]"] by simp
  then show "new \<in> set (map fst (renamed item km [])) =
           (\<exists>old. (old, new) \<in> set km \<and> qualifies item old)"
    by blast
  assume "(new, v) \<in> set (renamed item km [])"
  from renamed_entries [OF this]
  obtain old where "(old, new) \<in> set km" "qualifies item old" "v = ownProp item old"
    by auto
  then show "v \<noteq> JStr ''-'' \<and> truthy v \<and> (\<exists>old. (old, new) \<in> set km \<and> v = ownProp item old)"
    by (auto simp: qualifies_def)
qed


section \<open>Documents without the anchor path, and the defaults of the summary\<close>

lemma cleanCreditData_without_anchor:
  "\<not> truthy (ownProp (ownProp (ownProp (ownProp x ''body'') ''SPCA-XML'') ''RESPOSTA'') ''ACERTA'')
   \<Longrightarrow> cleanCreditData nf x = Inr degradedPayload"
  by (rule cleanCreditData_empty_report) (simp add: reportNode_def)

lemma cleanCreditData_on_non_objects:
  "cleanCreditData nf JNull = Inr degradedPayload"
  "cleanCreditData nf JUndefined = Inr degradedPayload"
  "cleanCreditData nf (JBool b) = Inr degradedPayload"
  "cleanCreditData nf (JNum n) = Inr degradedPayload"
  "cleanCreditData nf (JStr s) = Inr degradedPayload"
  "cleanCreditData nf (JArr xs) = Inr degradedPayload"
  by (rule cleanCreditData_without_anchor, simp)+

lemma cleanCreditData_on_truncated_documents:
  "cleanCreditData nf (JObj []) = Inr degradedPayload"
  "cleanCreditData nf (JObj [(''body'', JNull)]) = Inr degradedPayload"
  "cleanCreditData nf (JObj [(''body'', JObj [])]) = Inr degradedPayload"
  "cleanCreditData nf (JObj [(''body'', JObj [(''SPCA-XML'', JObj [])])]) = Inr degradedPayload"
  "cleanCreditData nf (JObj [(''body'', JObj [(''SPCA-XML'', JObj [(''RESPOSTA'', JObj [])])])])
     = Inr degradedPayload"
  "cleanCreditData nf (documentWith JNull) = Inr degradedPayload"
  by (rule cleanCreditData_without_anchor, simp add: documentWith_def)+

lemma cleanCreditData_on_empty_report:
  "cleanCreditData nf (documentWith (JObj [])) = Inr degradedPayload"
  by (rule cleanCreditData_empty_report) (rule reportNode_documentWith_obj)

lemma out_counters:
  assumes "cleanCreditData nf x = Inr out"
  shows "\<exists>pq lq bq.
     parseInt_js nf (orElse (ownProp (ownProp (reportNode x) ''RESUMO-TITULOS-PROTESTADOS'')
       ''TOTAL'') (JStr ''0'')) = Inr pq \<and>
     parseInt_js nf (orElse (ownProp (ownProp (reportNode x) ''RESUMO-DE-ACOES-CIVEIS'')
       ''QUANTIDADE'') (JStr ''0'')) = Inr lq \<and>
     parseInt_js nf (orElse (ownProp (ownProp (reportNode x)
       ''RESUMO-DEVOLUCOES-INFORMADAS-PELO-CCF'') ''TOTALOCORRENCAS'') (JStr ''0'')) = Inr bq \<and>
     ownProp (ownProp out ''financialSummary'') ''protestsQty'' = JNum pq \<and>
     ownProp (ownProp out ''financialSummary'') ''legalActionsQty'' = JNum lq \<and>
     ownProp (ownProp out ''financialSummary'') ''bouncedChecksQty'' = JNum bq"
proof -
  from cleanCreditData_parts [OF assms] obtain qty loc fin where
    f: "financialSummaryOf nf (reportNode x) qty (debitValuePart (reportNode x)) = Inr fin"
    and o: "ownProp out ''financialSummary'' = fin"
    by auto
  from financialSummaryOf_fields [OF truthy_reportNode f] o
  show ?thesis by auto
qed

lemma counters_of_absent_fields:
  assumes "cleanCreditData nf x = Inr out"
  shows "ownProp (ownProp (reportNode x) ''RESUMO-TITULOS-PROTESTADOS'') ''TOTAL'' = JUndefined
           \<Longrightarrow> ownProp (ownProp out ''financialSummary'') ''protestsQty'' = JNum (Fin 0)"
    and "ownProp (ownProp (reportNode x) ''RESUMO-DE-ACOES-CIVEIS'') ''QUANTIDADE'' = JUndefined
           \<Longrightarrow> ownProp (ownProp out ''financialSummary'') ''legalActionsQty'' = JNum (Fin 0)"
    and "ownProp (ownProp (reportNode x) ''RESUMO-DEVOLUCOES-INFORMADAS-PELO-CCF'')
           ''TOTALOCORRENCAS'' = JUndefined
           \<Longrightarrow> ownProp (ownProp out ''financialSummary'') ''bouncedChecksQty'' = JNum (Fin 0)"
  using out_counters [OF assms]
  by (auto simp: orElse_def parseInt_js_string parseIntStr_0)

lemma totalDebtsQty_defaults_to_zero:
  assumes "cleanCreditData nf x = Inr out"
    and "ownProp (ownProp (reportNode x) ''RESUMO-OCORRENCIAS-DE-DEBITOS'') ''TOTALDEVEDOR''
           = JUndefined \<or>
         (\<exists>s. ownProp (ownProp (reportNode x) ''RESUMO-OCORRENCIAS-DE-DEBITOS'') ''TOTALDEVEDOR''
           = JStr s \<and> parseIntStr s = NaN)"
    and "ownProp (ownProp (reportNode x) ''RESUMO-OCORRENCIAS-DE-DEBITOS'') ''TOTALAVALISTA''
           = JUndefined \<or>
         (\<exists>s. ownProp (ownProp (reportNode x) ''RESUMO-OCORRENCIAS-DE-DEBITOS'') ''TOTALAVALISTA''
           = JStr s \<and> parseIntStr s = NaN)"
  shows "ownProp (ownProp out ''financialSummary'') ''totalDebtsQty'' = JNum (Fin 0)"
proof -
  have p: "parseInt_js nf v = Inr NaN"
    if "v = JUndefined \<or> (\<exists>s. v = JStr s \<and> parseIntStr s = NaN)" for v
    using that by (auto simp: parseInt_js_def ebind_Inr parseIntStr_undefined)
  have "combinedDebitQty nf (ownProp (reportNode x) ''RESUMO-OCORRENCIAS-DE-DEBITOS'')
          = Inr (Fin 0)"
    by (simp add: combinedDebitQty_def optGet_ownProp ebind_Inr p [OF assms(2)] p [OF assms(3)]
          orZero_def)
  with out_totalDebtsQty [OF assms(1)] show ?thesis by auto
qed

lemma totalDebtsValue_NaN:
  assumes "cleanCreditData nf x = Inr out"
    and "parseMonetaryValue (ownProp (ownProp (reportNode x) ''RESUMO-OCORRENCIAS-DE-DEBITOS'')
           ''VALORACOMULADO'') = NaN \<or>
         parseMonetaryValue (ownProp (ownProp (reportNode x) ''RESUMO-OCORRENCIAS-DE-DEBITOS'')
           ''VALORAVALISTA'') = NaN"
  shows "ownProp (ownProp out ''financialSummary'') ''totalDebtsValue'' = JNum NaN"
proof -
  have "numAdd a b = NaN" if "a = NaN \<or> b = NaN" for a b
    using that by (cases a; cases b) auto
  with assms(2) have "debitValuePart (reportNode x) = NaN"
    by (simp add: debitValuePart_def)
  with out_totalDebtsValue [OF assms(1)] show ?thesis by simp
qed


section \<open>The data keys and rename maps of the source\<close>

lemma renameMap_debtsMap: "renameMap debtsMap"
  by (simp add: renameMap_def debtsMap_def isUpper_def isLower_def)

lemma renameMap_sections:
  "renameMap scoreMap" "renameMap protestsMap" "renameMap civilActionsMap"
  "renameMap bankruptcyMap" "renameMap participationMap"
  by (simp_all add: renameMap_def scoreMap_def protestsMap_def civilActionsMap_def
        bankruptcyMap_def participationMap_def isUpper_def isLower_def)

lemma usableDataKey_sections:
  "usableDataKey (Some ''DEBITO'')" "usableDataKey (Some ''TITULO-PROTESTADO'')"
  "usableDataKey (Some ''ACAO-CIVEL'')" "usableDataKey (Some ''FALENCIA-RECUPERACAO-JUDICIAL'')"
  "usableDataKey (Some ''PARTICIPACAO-EM-EMPRESA'')" "usableDataKey None"
  by (simp_all add: isUpper_def)

section \<open>The claims\<close>

text \<open>
  Claim C1 (totality): for every JSON input, \<open>cleanCreditData\<close> returns an object with the
  six fields of the output and never throws.

  The source does not have this property. Lines 97 and 98 hand a field of the debit summary
  to \<open>parseInt\<close>, which converts it to a string; on an object with an own property
  \<open>toString\<close> that conversion throws a \<open>TypeError\<close>, and nothing catches it. The theorem
  evaluates the transformation on such a document.

  What does hold is in the lemmas above: \<open>cleanCreditData_ok\<close> is the exact condition for a
  return (each of the eight converted values is convertible), \<open>cleanCreditData_keys\<close> gives the
  six fields of every output, and \<open>cleanCreditData_without_anchor\<close>,
  \<open>cleanCreditData_on_non_objects\<close> and \<open>cleanCreditData_on_truncated_documents\<close> give the
  degraded output for a null root, a root that is no object, \<open>{}\<close> and a document cut at
  any depth of the anchor path.
\<close>

theorem cleanCreditData_throws_on_toString_key:
  "cleanCreditData nf
     (documentWith (JObj [(''RESUMO-OCORRENCIAS-DE-DEBITOS'',
        JObj [(''TOTALDEVEDOR'', JObj [(''toString'', JStr ''3'')])])]))
   = Inl TypeError"
proof -
  let ?doc = "documentWith (JObj [(''RESUMO-OCORRENCIAS-DE-DEBITOS'',
        JObj [(''TOTALDEVEDOR'', JObj [(''toString'', JStr ''3'')])])])"
  have "\<not> list_all stringifiable (convertedValues ?doc)"
    by (simp add: convertedValues_def reportNode_documentWith_obj)
  then have "\<not> (\<exists>out. cleanCreditData nf ?doc = Inr out)"
    unfolding cleanCreditData_ok .
  then show ?thesis
    unfolding not_Inr_iff .
qed

text \<open>
  Claim C2 (shape resolution): \<open>processDetailBlock\<close> resolves the shape of a block in this
  order: an absent or falsy block gives no records; an array is the record list; a keyed
  object with \<open>REGISTRO = "S"\<close> that contains the \<open>dataKey\<close> is a wrapper, and the value at the
  \<open>dataKey\<close> is the record list; a keyed object with \<open>REGISTRO = "S"\<close> and no match is a single
  record; any other shape gives no records.

  As stated, with \<open>statedShape\<close>, the claim fails on a flagged object that contains the
  \<open>dataKey\<close> with a falsy value: line 50 tests the value at the \<open>dataKey\<close> for truth, so the
  object is not a wrapper there, and line 54 takes the object itself as the single record.
\<close>

theorem wrapper_with_null_data_is_a_record:
  "statedShape (JObj [(''REGISTRO'', JStr ''S''), (''DEBITO'', JNull), (''VALOR'', JStr ''5'')])
     (Some ''DEBITO'') = WrapperWithFlag JNull \<and>
   processDetailBlock
     (JObj [(''REGISTRO'', JStr ''S''), (''DEBITO'', JNull), (''VALOR'', JStr ''5'')])
     (Some ''DEBITO'') debtsMap = Inr (JArr [JObj [(''value'', JStr ''5'')]]) \<and>
   processDetailBlock
     (JObj [(''REGISTRO'', JStr ''S''), (''DEBITO'', JNull), (''VALOR'', JStr ''5'')])
     (Some ''DEBITO'') debtsMap
   \<noteq> Inr (JArr (mapRecords debtsMap (recordList (statedShape
         (JObj [(''REGISTRO'', JStr ''S''), (''DEBITO'', JNull), (''VALOR'', JStr ''5'')])
         (Some ''DEBITO'')))))"
  by (simp add: processDetailBlock_eq resolvedShape_def statedShape_def hasKey_def mapRecords_def
        emitted_def isRecord_def debtsMap_def qualifies_def setProp_def)

text \<open>
  Claim C2 as amended: for a usable \<open>dataKey\<close> and a rename map, the same order, where a
  flagged object is a wrapper when the \<open>dataKey\<close> is a non-empty string and the value at it
  is truthy (\<open>resolvedShape\<close>), and is a single record otherwise. The four cases of the claim
  follow: an array of two records, a wrapper around a list, a bare flagged object, and an
  object flagged \<open>"N"\<close>.

  The two hypotheses keep the statement to the keys of the data model, field codes in the
  upper-case convention of the bureau and output names that begin with a letter: there the
  reads of lines 50 and 73 and the assignment of line 74 are the ones of \<open>getProp\<close> and
  \<open>setProp\<close>. Every \<open>dataKey\<close> and rename map of the source is of this kind (lemmas
  \<open>usableDataKey_sections\<close>, \<open>renameMap_debtsMap\<close>, \<open>renameMap_sections\<close>).
\<close>

theorem processDetailBlock_shapes:
  assumes "usableDataKey dataKey" and "renameMap keyMap"
  shows
  "processDetailBlock block dataKey keyMap =
     Inr (JArr (mapRecords keyMap (recordList (resolvedShape block dataKey)))) \<and>
   processDetailBlock (JArr [r1, r2]) dataKey keyMap = Inr (JArr (mapRecords keyMap [r1, r2])) \<and>
   (fieldCode k \<and> k \<noteq> ''REGISTRO'' \<longrightarrow>
      processDetailBlock (JObj [(''REGISTRO'', JStr ''S''), (k, JArr rs)]) (Some k) keyMap
        = Inr (JArr (mapRecords keyMap rs))) \<and>
   ((case dataKey of None \<Rightarrow> True
     | Some d \<Rightarrow> d = [] \<or> \<not> truthy (ownProp (JObj ((''REGISTRO'', JStr ''S'') # fields)) d)) \<longrightarrow>
      processDetailBlock (JObj ((''REGISTRO'', JStr ''S'') # fields)) dataKey keyMap
        = Inr (JArr (mapRecords keyMap [JObj ((''REGISTRO'', JStr ''S'') # fields)]))) \<and>
   processDetailBlock (JObj ((''REGISTRO'', JStr ''N'') # fields)) dataKey keyMap = Inr (JArr [])"
proof -
  have a: "processDetailBlock (JArr [r1, r2]) dataKey keyMap
             = Inr (JArr (mapRecords keyMap [r1, r2]))"
    by (simp add: processDetailBlock_eq resolvedShape_def)
  have b: "processDetailBlock (JObj [(''REGISTRO'', JStr ''S''), (k, JArr rs)]) (Some k) keyMap
             = Inr (JArr (mapRecords keyMap rs))"
    if "fieldCode k \<and> k \<noteq> ''REGISTRO''"
  proof -
    from that have "k \<noteq> []" by (cases k) auto
    with that show ?thesis
      by (simp add: processDetailBlock_eq resolvedShape_def)
  qed
  have c: "processDetailBlock (JObj ((''REGISTRO'', JStr ''S'') # fields)) dataKey keyMap
             = Inr (JArr (mapRecords keyMap [JObj ((''REGISTRO'', JStr ''S'') # fields)]))"
    if "case dataKey of None \<Rightarrow> True
        | Some d \<Rightarrow> d = [] \<or> \<not> truthy (ownProp (JObj ((''REGISTRO'', JStr ''S'') # fields)) d)"
    using that
    by (cases dataKey) (auto simp: processDetailBlock_eq resolvedShape_def)
  have d: "processDetailBlock (JObj ((''REGISTRO'', JStr ''N'') # fields)) dataKey keyMap
             = Inr (JArr [])"
    by (simp add: processDetailBlock_eq resolvedShape_def mapRecords_def)
  from processDetailBlock_eq [of block dataKey keyMap] a b c d show ?thesis by blast
qed

theorem processDetailBlock_shapes_witness:
  "usableDataKey (Some ''DEBITO'') \<and> renameMap debtsMap \<and>
   processDetailBlock (JArr [JObj [(''VALOR'', JStr ''1'')], JObj [(''VALOR'', JStr ''2'')]])
     (Some ''DEBITO'') debtsMap
     = Inr (JArr [JObj [(''value'', JStr ''1'')], JObj [(''value'', JStr ''2'')]]) \<and>
   processDetailBlock
     (JObj [(''REGISTRO'', JStr ''S''),
            (''DEBITO'', JArr [JObj [(''VALOR'', JStr ''1'')], JObj [(''VALOR'', JStr ''2'')]])])
     (Some ''DEBITO'') debtsMap
     = Inr (JArr [JObj [(''value'', JStr ''1'')], JObj [(''value'', JStr ''2'')]]) \<and>
   processDetailBlock (JObj [(''REGISTRO'', JStr ''S''), (''VALOR'', JStr ''1'')])
     (Some ''DEBITO'') debtsMap
     = Inr (JArr [JObj [(''value'', JStr ''1'')]]) \<and>
   processDetailBlock (JObj [(''REGISTRO'', JStr ''N''), (''VALOR'', JStr ''1'')])
     (Some ''DEBITO'') debtsMap
     = Inr (JArr [])"
proof -
  have u: "usableDataKey (Some ''DEBITO'')" by (rule usableDataKey_sections)
  have r: "renameMap debtsMap" by (rule renameMap_debtsMap)
  have m: "mapRecords debtsMap [JObj [(''VALOR'', JStr ''1'')], JObj [(''VALOR'', JStr ''2'')]]
             = [JObj [(''value'', JStr ''1'')], JObj [(''value'', JStr ''2'')]]"
    by (simp add: mapRecords_def emitted_def isRecord_def debtsMap_def qualifies_def setProp_def)
  have n: "mapRecords debtsMap [JObj [(''REGISTRO'', JStr ''S''), (''VALOR'', JStr ''1'')]]
             = [JObj [(''value'', JStr ''1'')]]"
    by (simp add: mapRecords_def emitted_def isRecord_def debtsMap_def qualifies_def setProp_def)
  have h1: "fieldCode ''DEBITO'' \<and> ''DEBITO'' \<noteq> ''REGISTRO''" by (simp add: isUpper_def)
  have h2: "case Some ''DEBITO'' of None \<Rightarrow> True
        | Some d \<Rightarrow> d = [] \<or>
            \<not> truthy (ownProp (JObj ((''REGISTRO'', JStr ''S'') # [(''VALOR'', JStr ''1'')])) d)"
    by simp
  from processDetailBlock_shapes [OF u r, of "JNull"
      "JObj [(''VALOR'', JStr ''1'')]" "JObj [(''VALOR'', JStr ''2'')]" "''DEBITO''"
      "[JObj [(''VALOR'', JStr ''1'')], JObj [(''VALOR'', JStr ''2'')]]"
      "[(''VALOR'', JStr ''1'')]"] h1 h2 m n u r
  show ?thesis by simp
qed

text \<open>
  Claim C3 (placeholder filtering): for every block, \<open>dataKey\<close> and rename map, a record
  returned by \<open>processDetailBlock\<close> has only keys that are the new names of source keys whose
  value in the element is truthy and not \<open>"-"\<close>; a mapped field whose source value is \<open>"-"\<close>
  is absent from the record; elements that are not objects are dropped; no record is empty.

  As stated for every rename map, the second part fails where two source keys share a new
  name: the loop of lines 71 to 76 writes the field for the source key \<open>B\<close> although the
  source key \<open>A\<close> of the same field holds \<open>"-"\<close>.
\<close>

theorem placeholder_field_present_when_names_collide:
  "renameMap [(''A'', ''x''), (''B'', ''x'')] \<and>
   processDetailBlock (JArr [JObj [(''A'', JStr ''-''), (''B'', JStr ''v'')]]) None
     [(''A'', ''x''), (''B'', ''x'')] = Inr (JArr [JObj [(''x'', JStr ''v'')]]) \<and>
   (''A'', ''x'') \<in> set [(''A'', ''x''), (''B'', ''x'')] \<and>
   ownProp (JObj [(''A'', JStr ''-''), (''B'', JStr ''v'')]) ''A'' = JStr ''-'' \<and>
   ''x'' \<in> set (objectKeys (JObj [(''x'', JStr ''v'')]))"
  by (simp add: renameMap_def isUpper_def isLower_def processDetailBlock_eq resolvedShape_def
        mapRecords_def emitted_def isRecord_def qualifies_def setProp_def)

text \<open>
  Claim C3 as amended: for a usable \<open>dataKey\<close> and a rename map, every record that
  \<open>processDetailBlock\<close> returns comes from an element of the raw record list that is an
  object; its keys are exactly the new names of the source keys whose value in the element
  is truthy and not \<open>"-"\<close>, and its values are those values, never \<open>"-"\<close>; a field whose
  source key holds \<open>"-"\<close> is absent unless another source key of the same new name has such a
  value; no record is empty; and the records returned are as many as the object elements
  with at least one such key, so every other element is dropped.

  The hypotheses are those of claim C2: the keys of the data model.
\<close>

theorem processDetailBlock_records:
  assumes "usableDataKey dataKey" and "renameMap keyMap"
  shows
  "\<exists>out. processDetailBlock block dataKey keyMap = Inr (JArr out) \<and>
     length out =
       length (filter (\<lambda>item. isRecord item \<and> (\<exists>p\<in>set keyMap. qualifies item (fst p)))
                 (recordList (resolvedShape block dataKey))) \<and>
     (\<forall>r\<in>set out. \<exists>item fields.
        item \<in> set (recordList (resolvedShape block dataKey)) \<and> isRecord item \<and>
        r = JObj fields \<and> fields \<noteq> [] \<and>
        (\<forall>new. new \<in> set (map fst fields) =
           (\<exists>old. (old, new) \<in> set keyMap \<and> qualifies item old)) \<and>
        (\<forall>new v. (new, v) \<in> set fields \<longrightarrow>
           v \<noteq> JStr ''-'' \<and> truthy v \<and>
           (\<exists>old. (old, new) \<in> set keyMap \<and> v = ownProp item old)) \<and>
        (\<forall>old new. (old, new) \<in> set keyMap \<and> ownProp item old = JStr ''-'' \<and>
           (\<forall>old'. (old', new) \<in> set keyMap \<and> old' \<noteq> old \<longrightarrow> \<not> qualifies item old')
           \<longrightarrow> new \<notin> set (map fst fields)))"
proof -
  let ?raw = "recordList (resolvedShape block dataKey)"
  let ?out = "mapRecords keyMap ?raw"
  have ret: "processDetailBlock block dataKey keyMap = Inr (JArr ?out)"
    by (rule processDetailBlock_eq)
  have len: "length ?out =
       length (filter (\<lambda>item. isRecord item \<and> (\<exists>p\<in>set keyMap. qualifies item (fst p))) ?raw)"
  proof -
    have "emitted keyMap =
        (\<lambda>item. isRecord item \<and> (\<exists>p\<in>set keyMap. qualifies item (fst p)))"
      by (rule ext) (rule emitted_iff)
    then show ?thesis by (simp add: mapRecords_def)
  qed
  have recs: "\<exists>item fields.
        item \<in> set ?raw \<and> isRecord item \<and>
        r = JObj fields \<and> fields \<noteq> [] \<and>
        (\<forall>new. new \<in> set (map fst fields) =
           (\<exists>old. (old, new) \<in> set keyMap \<and> qualifies item old)) \<and>
        (\<forall>new v. (new, v) \<in> set fields \<longrightarrow>
           v \<noteq> JStr ''-'' \<and> truthy v \<and>
           (\<exists>old. (old, new) \<in> set keyMap \<and> v = ownProp item old)) \<and>
        (\<forall>old new. (old, new) \<in> set keyMap \<and> ownProp item old = JStr ''-'' \<and>
           (\<forall>old'. (old', new) \<in> set keyMap \<and> old' \<noteq> old \<longrightarrow> \<not> qualifies item old')
           \<longrightarrow> new \<notin> set (map fst fields))"
    if "r \<in> set ?out" for r
  proof -
    from that obtain item where
      it: "item \<in> set ?raw" and em: "emitted keyMap item"
      and r: "r = JObj (renamed item keyMap [])"
      by (auto simp: mapRecords_def)
    let ?fields = "renamed item keyMap []"
    have rec: "isRecord item" using em by (simp add: emitted_def)
    have ne: "?fields \<noteq> []" using em by (rule renamed_record(1))
    have keys: "\<forall>new. new \<in> set (map fst ?fields) =
           (\<exists>old. (old, new) \<in> set keyMap \<and> qualifies item old)"
      using renamed_record(2) [OF em] by blast
    have vals: "\<forall>new v. (new, v) \<in> set ?fields \<longrightarrow>
           v \<noteq> JStr ''-'' \<and> truthy v \<and>
           (\<exists>old. (old, new) \<in> set keyMap \<and> v = ownProp item old)"
      using renamed_record(3) [OF em] by blast
    have absent: "\<forall>old new. (old, new) \<in> set keyMap \<and> ownProp item old = JStr ''-'' \<and>
           (\<forall>old'. (old', new) \<in> set keyMap \<and> old' \<noteq> old \<longrightarrow> \<not> qualifies item old')
           \<longrightarrow> new \<notin> set (map fst ?fields)"
    proof (intro allI impI)
      fix old new
      assume a: "(old, new) \<in> set keyMap \<and> ownProp item old = JStr ''-'' \<and>
           (\<forall>old'. (old', new) \<in> set keyMap \<and> old' \<noteq> old \<longrightarrow> \<not> qualifies item old')"
      then have "\<not> qualifies item old" by (simp add: qualifies_def)
      with a have "\<not> (\<exists>old'. (old', new) \<in> set keyMap \<and> qualifies item old')" by blast
      with keys show "new \<notin> set (map fst ?fields)" by blast
    qed
    from it rec r ne keys vals absent show ?thesis by blast
  qed
  from ret len recs show ?thesis by blast
qed

theorem processDetailBlock_records_witness:
  "usableDataKey (Some ''DEBITO'') \<and> renameMap debtsMap \<and>
   (\<exists>fields. processDetailBlock
       (JArr [JNull, JStr ''x'',
              JObj [(''VALOR'', JStr ''-''), (''CONTRATO'', JStr ''-'')],
              JObj [(''VALOR'', JStr ''10''), (''CONTRATO'', JStr ''-'')]])
       (Some ''DEBITO'') debtsMap = Inr (JArr [JObj fields]) \<and>
     set (map fst fields) = {''value''} \<and> (''value'', JStr ''10'') \<in> set fields)"
proof -
  have u: "usableDataKey (Some ''DEBITO'')" by (rule usableDataKey_sections)
  have rm: "renameMap debtsMap" by (rule renameMap_debtsMap)
  let ?o3 = "JObj [(''VALOR'', JStr ''-''), (''CONTRATO'', JStr ''-'')]"
  let ?o4 = "JObj [(''VALOR'', JStr ''10''), (''CONTRATO'', JStr ''-'')]"
  let ?block = "JArr [JNull, JStr ''x'', ?o3, ?o4]"
  have raw: "recordList (resolvedShape ?block (Some ''DEBITO'')) = [JNull, JStr ''x'', ?o3, ?o4]"
    by (simp add: resolvedShape_def)
  have q3: "\<not> qualifies ?o3 old" for old
    by (simp add: qualifies_def)
  have q4: "qualifies ?o4 old = (old = ''VALOR'')" for old
    by (simp add: qualifies_def)
  from processDetailBlock_records [OF u rm, of ?block]
  obtain out where
    ret: "processDetailBlock ?block (Some ''DEBITO'') debtsMap = Inr (JArr out)"
    and len: "length out =
       length (filter (\<lambda>item. isRecord item \<and> (\<exists>p\<in>set debtsMap. qualifies item (fst p)))
                 (recordList (resolvedShape ?block (Some ''DEBITO''))))"
    and recs: "\<forall>r\<in>set out. \<exists>item fields.
        item \<in> set (recordList (resolvedShape ?block (Some ''DEBITO''))) \<and> isRecord item \<and>
        r = JObj fields \<and> fields \<noteq> [] \<and>
        (\<forall>new. new \<in> set (map fst fields) =
           (\<exists>old. (old, new) \<in> set debtsMap \<and> qualifies item old)) \<and>
        (\<forall>new v. (new, v) \<in> set fields \<longrightarrow>
           v \<noteq> JStr ''-'' \<and> truthy v \<and>
           (\<exists>old. (old, new) \<in> set debtsMap \<and> v = ownProp item old)) \<and>
        (\<forall>old new. (old, new) \<in> set debtsMap \<and> ownProp item old = JStr ''-'' \<and>
           (\<forall>old'. (old', new) \<in> set debtsMap \<and> old' \<noteq> old \<longrightarrow> \<not> qualifies item old')
           \<longrightarrow> new \<notin> set (map fst fields))"
    by (elim exE conjE)
  from len have "length out = 1"
    unfolding raw by (simp add: isRecord_def q3 q4 debtsMap_def)
  then obtain r where out: "out = [r]"
    by (cases out) auto
  then have "r \<in> set out" by simp
  with recs have "\<exists>item fields.
        item \<in> set (recordList (resolvedShape ?block (Some ''DEBITO''))) \<and> isRecord item \<and>
        r = JObj fields \<and> fields \<noteq> [] \<and>
        (\<forall>new. new \<in> set (map fst fields) =
           (\<exists>old. (old, new) \<in> set debtsMap \<and> qualifies item old)) \<and>
        (\<forall>new v. (new, v) \<in> set fields \<longrightarrow>
           v \<noteq> JStr ''-'' \<and> truthy v \<and>
           (\<exists>old. (old, new) \<in> set debtsMap \<and> v = ownProp item old)) \<and>
        (\<forall>old new. (old, new) \<in> set debtsMap \<and> ownProp item old = JStr ''-'' \<and>
           (\<forall>old'. (old', new) \<in> set debtsMap \<and> old' \<noteq> old \<longrightarrow> \<not> qualifies item old')
           \<longrightarrow> new \<notin> set (map fst fields))"
    by (rule bspec)
  then obtain item fields where
    it: "item \<in> set (recordList (resolvedShape ?block (Some ''DEBITO'')))"
    and rec: "isRecord item"
    and r: "r = JObj fields" and ne: "fields \<noteq> []"
    and keys: "\<forall>new. new \<in> set (map fst fields) =
           (\<exists>old. (old, new) \<in> set debtsMap \<and> qualifies item old)"
    and vals: "\<forall>new v. (new, v) \<in> set fields \<longrightarrow>
           v \<noteq> JStr ''-'' \<and> truthy v \<and>
           (\<exists>old. (old, new) \<in> set debtsMap \<and> v = ownProp item old)"
    by (elim exE conjE)
  from ne obtain k where k: "k \<in> set (map fst fields)"
    by (cases fields) auto
  from it rec have "item = ?o3 \<or> item = ?o4"
    unfolding raw by (auto simp: isRecord_def)
  moreover have "item \<noteq> ?o3"
  proof
    assume "item = ?o3"
    with keys k q3 show False by blast
  qed
  ultimately have item: "item = ?o4" by blast
  have km: "(old, new) \<in> set debtsMap \<and> old = ''VALOR'' \<longleftrightarrow> old = ''VALOR'' \<and> new = ''value''"
    for old new
    by (auto simp: debtsMap_def)
  have "new \<in> set (map fst fields) = (new = ''value'')" for new
  proof -
    have "new \<in> set (map fst fields) =
           (\<exists>old. (old, new) \<in> set debtsMap \<and> old = ''VALOR'')"
      using keys unfolding item q4 by blast
    also have "\<dots> = (new = ''value'')" using km by blast
    finally show ?thesis .
  qed
  then have ks: "set (map fst fields) = {''value''}" by blast
  then have "''value'' \<in> fst ` set fields" by simp
  then obtain v where v: "(''value'', v) \<in> set fields" by force
  with vals obtain old where o: "(old, ''value'') \<in> set debtsMap" and vo: "v = ownProp ?o4 old"
    unfolding item by blast
  from o have "old = ''VALOR''" by (auto simp: debtsMap_def)
  with vo have "v = JStr ''10''" by simp
  with v ks ret out r have "\<exists>fields. processDetailBlock ?block (Some ''DEBITO'') debtsMap
       = Inr (JArr [JObj fields]) \<and>
     set (map fst fields) = {''value''} \<and> (''value'', JStr ''10'') \<in> set fields"
    by blast
  with u rm show ?thesis by blast
qed

text \<open>
  Claim C4 (monetary parsing): \<open>parseMonetaryValue\<close> strips every \<open>.\<close>, replaces the
  \<open>,\<close> by \<open>.\<close> and parses the result as a float; on an input that is not a string it
  returns \<open>0\<close>; \<open>parseMonetaryValue("1.234.567,89") = 1234567.89\<close>,
  \<open>parseMonetaryValue(undefined) = 0\<close> and \<open>parseMonetaryValue("") = 0\<close>.

  The last example fails: the empty string is a string, the guard of line 20 lets it
  through, and \<open>parseFloat("")\<close> is \<open>NaN\<close>.
\<close>

theorem parseMonetaryValue_empty_string_not_zero:
  "parseMonetaryValue (JStr '''') \<noteq> Fin 0"
  by (simp add: parseMonetaryValue_empty)

text \<open>
  Claim C4 as amended: the contract as stated (every dot removed, the first comma replaced,
  the rest parsed; \<open>0\<close> for an input that is not a string), the first two examples, and
  \<open>parseMonetaryValue("") = NaN\<close>.
\<close>

theorem parseMonetaryValue_contract:
  "parseMonetaryValue (JStr s) = parseFloat_js (replaceComma (removeDots s)) \<and>
   removeDots s = filter (\<lambda>c. c \<noteq> CHR ''.'') s \<and>
   replaceComma t =
     (if CHR '','' \<in> set t
      then takeWhile (\<lambda>c. c \<noteq> CHR '','') t @ ''.'' @ tl (dropWhile (\<lambda>c. c \<noteq> CHR '','') t)
      else t) \<and>
   (typeof_js v \<noteq> ''string'' \<longrightarrow> parseMonetaryValue v = Fin 0) \<and>
   parseMonetaryValue (JStr ''1.234.567,89'') = Fin 1234567.89 \<and>
   parseMonetaryValue JUndefined = Fin 0 \<and>
   parseMonetaryValue JNull = Fin 0 \<and>
   parseMonetaryValue (JStr '''') = NaN"
proof -
  have "parseMonetaryValue (JStr s) = parseFloat_js (replaceComma (removeDots s))"
    by (simp add: parseMonetaryValue_def)
  moreover have "removeDots s = filter (\<lambda>c. c \<noteq> CHR ''.'') s"
    by (simp add: removeDots_def)
  moreover note replaceComma_eq [of t]
  moreover have "typeof_js v \<noteq> ''string'' \<longrightarrow> parseMonetaryValue v = Fin 0"
    by (simp add: parseMonetaryValue_not_string)
  moreover note parseMonetaryValue_example
  moreover have "parseMonetaryValue JUndefined = Fin 0" "parseMonetaryValue JNull = Fin 0"
    by (simp_all add: parseMonetaryValue_def)
  moreover note parseMonetaryValue_empty
  ultimately show ?thesis by blast
qed

theorem parseMonetaryValue_contract_witness:
  "typeof_js (JNum (Fin 7)) \<noteq> ''string'' \<and> parseMonetaryValue (JNum (Fin 7)) = Fin 0 \<and>
   parseMonetaryValue (JStr ''1.234,56'') = parseFloat_js ''1234.56''"
proof -
  have h: "typeof_js (JNum (Fin 7)) \<noteq> ''string''" by simp
  have r: "replaceComma (removeDots ''1.234,56'') = ''1234.56''"
    by (simp add: removeDots_def)
  from parseMonetaryValue_contract [of "''1.234,56''" "''1234,56''" "JNum (Fin 7)"] h r
  show ?thesis by simp
qed

text \<open>
  Claim C5 (summary aggregation): with the quantities \<open>"3"\<close> and \<open>"1"\<close> in the debit
  summary of the report, \<open>totalDebtsQty\<close> is \<open>4\<close>; with the values \<open>"100,00"\<close> and
  \<open>"50,50"\<close>, \<open>totalDebtsValue\<close> is \<open>150.5\<close>. This holds for every document with these
  fields and every output of the transformation on it.
\<close>

theorem summary_aggregation:
  assumes "cleanCreditData nf x = Inr out"
  shows
    "(ownProp (ownProp (reportNode x) ''RESUMO-OCORRENCIAS-DE-DEBITOS'') ''TOTALDEVEDOR''
        = JStr ''3'' \<and>
      ownProp (ownProp (reportNode x) ''RESUMO-OCORRENCIAS-DE-DEBITOS'') ''TOTALAVALISTA''
        = JStr ''1''
      \<longrightarrow> ownProp (ownProp out ''financialSummary'') ''totalDebtsQty'' = JNum (Fin 4)) \<and>
     (ownProp (ownProp (reportNode x) ''RESUMO-OCORRENCIAS-DE-DEBITOS'') ''VALORACOMULADO''
        = JStr ''100,00'' \<and>
      ownProp (ownProp (reportNode x) ''RESUMO-OCORRENCIAS-DE-DEBITOS'') ''VALORAVALISTA''
        = JStr ''50,50''
      \<longrightarrow> ownProp (ownProp out ''financialSummary'') ''totalDebtsValue'' = JNum (Fin 150.5))"
proof (intro conjI impI)
  assume q: "ownProp (ownProp (reportNode x) ''RESUMO-OCORRENCIAS-DE-DEBITOS'') ''TOTALDEVEDOR''
        = JStr ''3'' \<and>
      ownProp (ownProp (reportNode x) ''RESUMO-OCORRENCIAS-DE-DEBITOS'') ''TOTALAVALISTA''
        = JStr ''1''"
  then have "combinedDebitQty nf (ownProp (reportNode x) ''RESUMO-OCORRENCIAS-DE-DEBITOS'')
     = Inr (Fin 4)"
    by (simp add: combinedDebitQty_strings parseIntStr_3 parseIntStr_1 orZero_def)
  with out_totalDebtsQty [OF assms]
  show "ownProp (ownProp out ''financialSummary'') ''totalDebtsQty'' = JNum (Fin 4)"
    by auto
next
  assume v: "ownProp (ownProp (reportNode x) ''RESUMO-OCORRENCIAS-DE-DEBITOS'') ''VALORACOMULADO''
        = JStr ''100,00'' \<and>
      ownProp (ownProp (reportNode x) ''RESUMO-OCORRENCIAS-DE-DEBITOS'') ''VALORAVALISTA''
        = JStr ''50,50''"
  then have "debitValuePart (reportNode x) = Fin 150.5"
    by (simp add: debitValuePart_def parseMonetaryValue_100_00 parseMonetaryValue_50_50)
  with out_totalDebtsValue [OF assms]
  show "ownProp (ownProp out ''financialSummary'') ''totalDebtsValue'' = JNum (Fin 150.5)"
    by simp
qed

theorem summary_aggregation_witness:
  "\<forall>nf. \<exists>out. cleanCreditData nf
     (documentWith (JObj [
        (''RESUMO-OCORRENCIAS-DE-DEBITOS'',
           JObj [(''TOTALDEVEDOR'', JStr ''3''), (''TOTALAVALISTA'', JStr ''1''),
                 (''VALORACOMULADO'', JStr ''100,00''), (''VALORAVALISTA'', JStr ''50,50'')])]))
       = Inr out \<and>
     ownProp (ownProp out ''financialSummary'') ''totalDebtsQty'' = JNum (Fin 4) \<and>
     ownProp (ownProp out ''financialSummary'') ''totalDebtsValue'' = JNum (Fin 150.5)"
proof
  fix nf
  let ?acerta = "JObj [
        (''RESUMO-OCORRENCIAS-DE-DEBITOS'',
           JObj [(''TOTALDEVEDOR'', JStr ''3''), (''TOTALAVALISTA'', JStr ''1''),
                 (''VALORACOMULADO'', JStr ''100,00''), (''VALORAVALISTA'', JStr ''50,50'')])]"
  have rn: "reportNode (documentWith ?acerta) = ?acerta"
    by (rule reportNode_documentWith_obj)
  have "\<exists>out. cleanCreditData nf (documentWith ?acerta) = Inr out"
    by (rule returns_when_strings) (simp add: convertedValues_def rn)
  then obtain out where out: "cleanCreditData nf (documentWith ?acerta) = Inr out" ..
  from summary_aggregation [OF out]
  have "ownProp (ownProp out ''financialSummary'') ''totalDebtsQty'' = JNum (Fin 4) \<and>
     ownProp (ownProp out ''financialSummary'') ''totalDebtsValue'' = JNum (Fin 150.5)"
    by (simp add: rn)
  with out show "\<exists>out. cleanCreditData nf (documentWith ?acerta) = Inr out \<and>
     ownProp (ownProp out ''financialSummary'') ''totalDebtsQty'' = JNum (Fin 4) \<and>
     ownProp (ownProp out ''financialSummary'') ''totalDebtsValue'' = JNum (Fin 150.5)"
    by blast
qed

text \<open>
  Claim C6 (integer counters): an absent or non-numeric quantity yields the counter \<open>0\<close>.

  The source has this for the two quantities of \<open>totalDebtsQty\<close>, where lines 97 and 98
  write \<open>parseInt(...) || 0\<close> (lemma \<open>totalDebtsQty_defaults_to_zero\<close>), and for the absent
  fields of the other three counters (lemma \<open>counters_of_absent_fields\<close>). But lines 128 to
  140 write \<open>parseInt(... || "0")\<close>: the default stands before the parse, a non-numeric
  string is truthy and is parsed to \<open>NaN\<close>. The theorem evaluates both paths on the string
  \<open>"abc"\<close>.
\<close>

theorem counters_nonnumeric_string:
  "\<exists>out. cleanCreditData nf
     (documentWith (JObj [
        (''RESUMO-OCORRENCIAS-DE-DEBITOS'', JObj [(''TOTALDEVEDOR'', JStr ''abc'')]),
        (''RESUMO-TITULOS-PROTESTADOS'', JObj [(''TOTAL'', JStr ''abc'')])])) = Inr out \<and>
     ownProp (ownProp out ''financialSummary'') ''totalDebtsQty'' = JNum (Fin 0) \<and>
     ownProp (ownProp out ''financialSummary'') ''protestsQty'' = JNum NaN"
proof -
  let ?acerta = "JObj [
        (''RESUMO-OCORRENCIAS-DE-DEBITOS'', JObj [(''TOTALDEVEDOR'', JStr ''abc'')]),
        (''RESUMO-TITULOS-PROTESTADOS'', JObj [(''TOTAL'', JStr ''abc'')])]"
  have rn: "reportNode (documentWith ?acerta) = ?acerta"
    by (rule reportNode_documentWith_obj)
  have "\<exists>out. cleanCreditData nf (documentWith ?acerta) = Inr out"
    by (rule returns_when_strings) (simp add: convertedValues_def rn)
  then obtain out where out: "cleanCreditData nf (documentWith ?acerta) = Inr out" ..
  from out_totalDebtsQty [OF out]
  have "ownProp (ownProp out ''financialSummary'') ''totalDebtsQty'' = JNum (Fin 0)"
    by (simp add: rn combinedDebitQty_def optGet_ownProp ebind_Inr parseInt_js_def
          parseIntStr_abc parseIntStr_undefined orZero_def)
  moreover from out_protestsQty [OF out]
  have "ownProp (ownProp out ''financialSummary'') ''protestsQty'' = JNum NaN"
    by (simp add: rn orElse_def parseInt_js_string parseIntStr_abc)
  ultimately show ?thesis using out by blast
qed

text \<open>
  Claim C7 (unparsable monetary string): an unparsable value counts as \<open>0\<close> in the sum,
  so that \<open>totalDebtsValue\<close> is the other component.

  In the source the sum of line 104 adds the two parsed values as they are, without the
  \<open>|| 0\<close> of lines 97 and 98: with \<open>VALORACOMULADO = "abc"\<close> and
  \<open>VALORAVALISTA = "50,50"\<close> no exception is raised, the second value parses to \<open>50.5\<close>, and
  \<open>totalDebtsValue\<close> is \<open>NaN\<close>. Lemma \<open>totalDebtsValue_NaN\<close> is the general fact.
\<close>

theorem unparsable_value_makes_total_NaN:
  "\<exists>out. cleanCreditData nf
     (documentWith (JObj [
        (''RESUMO-OCORRENCIAS-DE-DEBITOS'',
           JObj [(''VALORACOMULADO'', JStr ''abc''), (''VALORAVALISTA'', JStr ''50,50'')])]))
       = Inr out \<and>
     parseMonetaryValue (JStr ''50,50'') = Fin 50.5 \<and>
     ownProp (ownProp out ''financialSummary'') ''totalDebtsValue'' = JNum NaN"
proof -
  let ?acerta = "JObj [
        (''RESUMO-OCORRENCIAS-DE-DEBITOS'',
           JObj [(''VALORACOMULADO'', JStr ''abc''), (''VALORAVALISTA'', JStr ''50,50'')])]"
  have rn: "reportNode (documentWith ?acerta) = ?acerta"
    by (rule reportNode_documentWith_obj)
  have "\<exists>out. cleanCreditData nf (documentWith ?acerta) = Inr out"
    by (rule returns_when_strings) (simp add: convertedValues_def rn)
  then obtain out where out: "cleanCreditData nf (documentWith ?acerta) = Inr out" ..
  have "debitValuePart ?acerta = NaN"
    by (simp add: debitValuePart_def parseMonetaryValue_abc)
  with out_totalDebtsValue [OF out]
  have "ownProp (ownProp out ''financialSummary'') ''totalDebtsValue'' = JNum NaN"
    by (simp add: rn)
  with out parseMonetaryValue_50_50 show ?thesis by blast
qed

text \<open>
  Claim C8 (end-to-end scenario): for a document whose report node holds
  \<open>DEBITOS = {REGISTRO: "S", DEBITO: [{DATAOCORRENCIA: "2023-01-01", VALOR: "1.000,00",
  INFORMANTE: "Bank X", CONTRATO: "-"}]}\<close>, the output has \<open>negativeDetails.debts =
  [{date: "2023-01-01", value: "1.000,00", creditor: "Bank X"}]\<close>: the placeholder of
  \<open>CONTRATO\<close> is left out and the value stays the string it was.
\<close>

theorem end_to_end_debts:
  assumes "cleanCreditData nf x = Inr out"
    and "ownProp (reportNode x) ''DEBITOS'' =
      JObj [(''REGISTRO'', JStr ''S''),
            (''DEBITO'', JArr [JObj [(''DATAOCORRENCIA'', JStr ''2023-01-01''),
                                     (''VALOR'', JStr ''1.000,00''),
                                     (''INFORMANTE'', JStr ''Bank X''),
                                     (''CONTRATO'', JStr ''-'')]])]"
  shows "ownProp (ownProp out ''negativeDetails'') ''debts'' =
     JArr [JObj [(''date'', JStr ''2023-01-01''), (''value'', JStr ''1.000,00''),
                 (''creditor'', JStr ''Bank X'')]]"
  unfolding out_debts [OF assms(1)] sectionRecords_def assms(2)
  by (simp add: resolvedShape_def mapRecords_def emitted_def isRecord_def debtsMap_def
        qualifies_def setProp_def)

theorem end_to_end_debts_witness:
  "\<forall>nf. \<exists>out. cleanCreditData nf
     (documentWith (JObj [(''DEBITOS'',
        JObj [(''REGISTRO'', JStr ''S''),
              (''DEBITO'', JArr [JObj [(''DATAOCORRENCIA'', JStr ''2023-01-01''),
                                       (''VALOR'', JStr ''1.000,00''),
                                       (''INFORMANTE'', JStr ''Bank X''),
                                       (''CONTRATO'', JStr ''-'')]])])])) = Inr out \<and>
     ownProp (ownProp out ''negativeDetails'') ''debts'' =
       JArr [JObj [(''date'', JStr ''2023-01-01''), (''value'', JStr ''1.000,00''),
                   (''creditor'', JStr ''Bank X'')]]"
proof
  fix nf
  let ?acerta = "JObj [(''DEBITOS'',
        JObj [(''REGISTRO'', JStr ''S''),
              (''DEBITO'', JArr [JObj [(''DATAOCORRENCIA'', JStr ''2023-01-01''),
                                       (''VALOR'', JStr ''1.000,00''),
                                       (''INFORMANTE'', JStr ''Bank X''),
                                       (''CONTRATO'', JStr ''-'')]])])]"
  have rn: "reportNode (documentWith ?acerta) = ?acerta"
    by (rule reportNode_documentWith_obj)
  have "\<exists>out. cleanCreditData nf (documentWith ?acerta) = Inr out"
    by (rule returns_when_strings) (simp add: convertedValues_def rn)
  then obtain out where out: "cleanCreditData nf (documentWith ?acerta) = Inr out" ..
  have "ownProp (ownProp out ''negativeDetails'') ''debts'' =
       JArr [JObj [(''date'', JStr ''2023-01-01''), (''value'', JStr ''1.000,00''),
                   (''creditor'', JStr ''Bank X'')]]"
    by (rule end_to_end_debts [OF out]) (simp add: rn)
  with out show "\<exists>out. cleanCreditData nf (documentWith ?acerta) = Inr out \<and>
     ownProp (ownProp out ''negativeDetails'') ''debts'' =
       JArr [JObj [(''date'', JStr ''2023-01-01''), (''value'', JStr ''1.000,00''),
                   (''creditor'', JStr ''Bank X'')]]"
    by blast
qed

text \<open>
  Claim C9 (re-normalisation): an output of \<open>cleanCreditData\<close>, fed back as input, does not
  throw and yields the degraded output, the one of the empty object \<open>{}\<close>.
\<close>

theorem renormalization_degrades:
  assumes "cleanCreditData nf x = Inr out"
  shows "cleanCreditData nf out = Inr degradedPayload \<and>
         cleanCreditData nf out = cleanCreditData nf (JObj [])"
proof -
  have "reportNode out = JObj []"
    using assms by (rule reportNode_of_output)
  then have "cleanCreditData nf out = Inr degradedPayload"
    by (rule cleanCreditData_empty_report)
  then show ?thesis by (simp add: returns_on_empty)
qed

theorem renormalization_degrades_witness:
  "\<forall>nf. \<exists>out. cleanCreditData nf
     (documentWith (JObj [(''IDENTIFICACAO'', JObj [(''NOME'', JStr ''Ana'')]),
        (''RESUMO-OCORRENCIAS-DE-DEBITOS'', JObj [(''TOTALDEVEDOR'', JStr ''3'')])])) = Inr out \<and>
     out \<noteq> degradedPayload \<and>
     cleanCreditData nf out = Inr degradedPayload \<and>
     cleanCreditData nf out = cleanCreditData nf (JObj [])"
proof
  fix nf
  let ?acerta = "JObj [(''IDENTIFICACAO'', JObj [(''NOME'', JStr ''Ana'')]),
        (''RESUMO-OCORRENCIAS-DE-DEBITOS'', JObj [(''TOTALDEVEDOR'', JStr ''3'')])]"
  have rn: "reportNode (documentWith ?acerta) = ?acerta"
    by (rule reportNode_documentWith_obj)
  have "\<exists>out. cleanCreditData nf (documentWith ?acerta) = Inr out"
    by (rule returns_when_strings) (simp add: convertedValues_def rn)
  then obtain out where out: "cleanCreditData nf (documentWith ?acerta) = Inr out" ..
  from cleanCreditData_parts [OF out]
  have "ownProp (ownProp out ''identification'') ''name'' = JStr ''Ana''"
    by (auto simp: rn identificationPart_def)
  moreover have "ownProp (ownProp degradedPayload ''identification'') ''name'' = JUndefined"
    by (simp add: degradedPayload_def)
  ultimately have ne: "out \<noteq> degradedPayload" by auto
  from renormalization_degrades [OF out] out ne
  show "\<exists>out. cleanCreditData nf (documentWith ?acerta) = Inr out \<and>
     out \<noteq> degradedPayload \<and>
     cleanCreditData nf out = Inr degradedPayload \<and>
     cleanCreditData nf out = cleanCreditData nf (JObj [])"
    by blast
qed

text \<open>
  Claim C10 (address): the address of an output is the template of lines 117 to 119 with
  nothing but white space removed at its two ends, so the comma and all that stands between
  the parts survive; it is never empty; and it is the single character \<open>,\<close> when the
  \<open>LOCALIZACAO\<close> node or all three parts are absent.
\<close>

theorem address_keeps_comma:
  assumes "cleanCreditData nf x = Inr out"
  shows "\<exists>a s1 s2 s3 pre suf.
     ownProp (ownProp out ''location'') ''address'' = JStr a \<and>
     toString_js nf (orElse (ownProp (ownProp (reportNode x) ''LOCALIZACAO'') ''TIPOLOGRADOURO'')
       (JStr [])) = Inr s1 \<and>
     toString_js nf (orElse (ownProp (ownProp (reportNode x) ''LOCALIZACAO'') ''NOMELOGRADOURO'')
       (JStr [])) = Inr s2 \<and>
     toString_js nf (orElse (ownProp (ownProp (reportNode x) ''LOCALIZACAO'') ''NUMEROLOGRADOURO'')
       (JStr [])) = Inr s3 \<and>
     s1 @ '' '' @ s2 @ '', '' @ s3 = pre @ a @ suf \<and>
     list_all isWs pre \<and> list_all isWs suf \<and>
     \<not> isWs (hd a) \<and> \<not> isWs (last a) \<and>
     a \<noteq> [] \<and> CHR '','' \<in> set a \<and>
     (ownProp (reportNode x) ''LOCALIZACAO'' = JUndefined \<or>
      ownProp (ownProp (reportNode x) ''LOCALIZACAO'') ''TIPOLOGRADOURO'' = JUndefined \<and>
      ownProp (ownProp (reportNode x) ''LOCALIZACAO'') ''NOMELOGRADOURO'' = JUndefined \<and>
      ownProp (ownProp (reportNode x) ''LOCALIZACAO'') ''NUMEROLOGRADOURO'' = JUndefined
      \<longrightarrow> a = '','')"
proof -
  from out_address [OF assms] obtain a where
    ad: "addressOf nf (reportNode x) = Inr a"
    and oa: "ownProp (ownProp out ''location'') ''address'' = JStr a"
    by blast
  from addressOf_parts [OF truthy_reportNode ad] obtain s1 s2 s3 where
    t1: "toString_js nf (orElse (ownProp (ownProp (reportNode x) ''LOCALIZACAO'')
           ''TIPOLOGRADOURO'') (JStr [])) = Inr s1"
    and t2: "toString_js nf (orElse (ownProp (ownProp (reportNode x) ''LOCALIZACAO'')
           ''NOMELOGRADOURO'') (JStr [])) = Inr s2"
    and t3: "toString_js nf (orElse (ownProp (ownProp (reportNode x) ''LOCALIZACAO'')
           ''NUMEROLOGRADOURO'') (JStr [])) = Inr s3"
    and a: "a = trim (s1 @ '' '' @ s2 @ '', '' @ s3)"
    by blast
  let ?full = "s1 @ '' '' @ s2 @ '', '' @ s3"
  from trim_decomp [of ?full] a obtain pre suf where
    d: "?full = pre @ a @ suf" and p: "list_all isWs pre" and q: "list_all isWs suf"
    by blast
  have "CHR '','' \<in> set ?full" by simp
  then have c: "CHR '','' \<in> set a"
    unfolding a using comma_not_ws by (rule trim_keeps)
  then have ne: "a \<noteq> []" by auto
  with trim_ends [of ?full] a have e: "\<not> isWs (hd a) \<and> \<not> isWs (last a)" by simp
  have ab: "a = '',''"
    if "ownProp (reportNode x) ''LOCALIZACAO'' = JUndefined \<or>
      ownProp (ownProp (reportNode x) ''LOCALIZACAO'') ''TIPOLOGRADOURO'' = JUndefined \<and>
      ownProp (ownProp (reportNode x) ''LOCALIZACAO'') ''NOMELOGRADOURO'' = JUndefined \<and>
      ownProp (ownProp (reportNode x) ''LOCALIZACAO'') ''NUMEROLOGRADOURO'' = JUndefined"
  proof -
    from that have u:
      "ownProp (ownProp (reportNode x) ''LOCALIZACAO'') ''TIPOLOGRADOURO'' = JUndefined"
      "ownProp (ownProp (reportNode x) ''LOCALIZACAO'') ''NOMELOGRADOURO'' = JUndefined"
      "ownProp (ownProp (reportNode x) ''LOCALIZACAO'') ''NUMEROLOGRADOURO'' = JUndefined"
      by auto
    from t1 t2 t3 have "s1 = []" "s2 = []" "s3 = []"
      by (simp_all add: u orElse_def)
    with a show ?thesis by (simp add: trim_comma)
  qed
  from oa t1 t2 t3 d p q e ne c ab show ?thesis by blast
qed

theorem address_keeps_comma_witness:
  "\<forall>nf. \<exists>out. cleanCreditData nf (JObj []) = Inr out \<and>
     ownProp (ownProp out ''location'') ''address'' = JStr '',''"
proof
  fix nf
  have out: "cleanCreditData nf (JObj []) = Inr degradedPayload"
    by (rule returns_on_empty)
  have "ownProp (reportNode (JObj [])) ''LOCALIZACAO'' = JUndefined"
    by (simp add: reportNode_empty)
  with address_keeps_comma [OF out]
  have "ownProp (ownProp degradedPayload ''location'') ''address'' = JStr '',''"
    by auto
  with out show "\<exists>out. cleanCreditData nf (JObj []) = Inr out \<and>
     ownProp (ownProp out ''location'') ''address'' = JStr '',''"
    by blast
qed

end
